theory Spec2Isabelle
  imports Complex_Main
begin

section \<open>Numbers and the environment\<close>

text \<open>
  The game (\<^verbatim>\<open>src/game.js\<close>) computes with JavaScript numbers, which are IEEE 754
  doubles. A finite double is modelled as the real number it denotes. An arithmetic
  operation of the source is the exact operation followed by \<open>fl\<close>, the rounding to the
  nearest double (53 bits, ties to even); a decimal literal \<^verbatim>\<open>c\<close> of the source is
  \<open>fl c\<close>, and a literal that is a double (\<open>30\<close>, \<open>0.5\<close>, \<open>1.5\<close>) stands for itself. The
  range of the exponent is not bounded in \<open>fl\<close>: overflow to \<^verbatim>\<open>Infinity\<close> and underflow
  are outside the model. Counters (score, lives, combo) are integers.

  \<^verbatim>\<open>NaN\<close> arises where \<^verbatim>\<open>spawnAsteroid\<close> normalises a direction of length zero; it is
  modelled in the numbers that it can reach, the position and the velocity of an asteroid
  (\<open>jsnum\<close>).

  Two functions are kept in exact arithmetic, without \<open>fl\<close>: the step of a particle
  (\<open>stepParticle\<close>) and the smoothing of the cursor (\<open>lerp\<close>).

  \<^verbatim>\<open>Math.random()\<close> and \<^verbatim>\<open>Date.now()\<close> are read from the environment: the \<open>n\<close>-th call
  of \<^verbatim>\<open>Math.random()\<close> returns \<open>rand n\<close>, the \<open>n\<close>-th call of \<^verbatim>\<open>Date.now()\<close> returns
  \<open>dateNow n\<close>, and the state counts the calls made so far.
\<close>

text \<open>Rounding to the nearest integer, ties to the even one.\<close>

definition rne :: "real \<Rightarrow> int" where
  "rne q = (let n = \<lfloor>q\<rfloor>; r = q - of_int n
            in if r < 1 / 2 then n else if 1 / 2 < r then n + 1
               else if even n then n else n + 1)"

text \<open>The binary exponent of a number other than 0.\<close>

definition expo :: "real \<Rightarrow> int" where
  "expo x = \<lfloor>log 2 \<bar>x\<bar>\<rfloor>"

text \<open>Rounding to the nearest double: the significand \<open>x / 2 powi (expo x - 52)\<close>, which
  lies between \<open>2 ^ 52\<close> and \<open>2 ^ 53\<close>, is rounded to an integer.\<close>

definition fl :: "real \<Rightarrow> real" where
  "fl x = (if x = 0 then 0
           else of_int (rne (x / 2 powi (expo x - 52))) * 2 powi (expo x - 52))"

text \<open>A number of the source that may be \<^verbatim>\<open>NaN\<close>, and the operations on such numbers
  that the source uses. Every operation with \<^verbatim>\<open>NaN\<close> gives \<^verbatim>\<open>NaN\<close>, and every
  comparison with \<^verbatim>\<open>NaN\<close> is false. A quotient by zero is \<^verbatim>\<open>NaN\<close> here: the only
  division on such numbers, in \<^verbatim>\<open>spawnAsteroid\<close>, has a divisor zero only where the
  dividend is zero too.\<close>

datatype jsnum = Fin real | NaN

fun jadd :: "jsnum \<Rightarrow> jsnum \<Rightarrow> jsnum" where
  "jadd (Fin a) (Fin b) = Fin (fl (a + b))"
| "jadd a b = NaN"

fun jsub :: "jsnum \<Rightarrow> jsnum \<Rightarrow> jsnum" where
  "jsub (Fin a) (Fin b) = Fin (fl (a - b))"
| "jsub a b = NaN"

fun jmul :: "jsnum \<Rightarrow> jsnum \<Rightarrow> jsnum" where
  "jmul (Fin a) (Fin b) = Fin (fl (a * b))"
| "jmul a b = NaN"

fun jdiv :: "jsnum \<Rightarrow> jsnum \<Rightarrow> jsnum" where
  "jdiv (Fin a) (Fin b) = (if b = 0 then NaN else Fin (fl (a / b)))"
| "jdiv a b = NaN"

fun jsqrt :: "jsnum \<Rightarrow> jsnum" where
  "jsqrt (Fin a) = (if a < 0 then NaN else Fin (fl (sqrt a)))"
| "jsqrt NaN = NaN"

fun jless :: "jsnum \<Rightarrow> jsnum \<Rightarrow> bool" where
  "jless (Fin a) (Fin b) = (a < b)"
| "jless a b = False"

text \<open>\<^verbatim>\<open>Math.round\<close>, on the double it is given: the nearest integer, ties upwards.\<close>

definition Math_round :: "real \<Rightarrow> int" where
  "Math_round v = \<lfloor>v + 1 / 2\<rfloor>"

text \<open>\<^verbatim>\<open>Math.cos\<close> and \<^verbatim>\<open>Math.sin\<close>, taken as correctly rounded (the language leaves their
  accuracy to the implementation; they give the velocity of a new particle, on which
  nothing below depends).\<close>

definition Math_cos :: "real \<Rightarrow> real" where
  "Math_cos v = fl (cos v)"

definition Math_sin :: "real \<Rightarrow> real" where
  "Math_sin v = fl (sin v)"

text \<open>\<^verbatim>\<open>lerp\<close>, in exact arithmetic.\<close>

definition lerp :: "real \<Rightarrow> real \<Rightarrow> real \<Rightarrow> real" where
  "lerp a b t = a + (b - a) * t"

section \<open>Configuration\<close>

record config =
  initialLives :: int
  baseAsteroidSpeed :: real
  asteroidSpawnInterval :: real
  minSpawnInterval :: real
  difficultyRampTime :: real
  cursorRadius :: real
  comboTimeout :: real
  particleCount :: real
  trailLength :: nat
  fingerSmoothing :: real

definition CONFIG :: config where
  "CONFIG = \<lparr> initialLives = 3, baseAsteroidSpeed = 1.5, asteroidSpawnInterval = 2000,
     minSpawnInterval = 500, difficultyRampTime = 30000, cursorRadius = 60,
     comboTimeout = 2000, particleCount = 20, trailLength = 15, fingerSmoothing = 0.3 \<rparr>"

section \<open>Game state\<close>

record vertex =
  v_angle :: real
  v_radius :: real

record asteroid =
  a_x :: jsnum
  a_y :: jsnum
  a_vx :: jsnum
  a_vy :: jsnum
  a_radius :: real
  a_rotation :: real
  a_rotationSpeed :: real
  a_vertices :: "vertex list"
  a_hue :: real

record particle =
  p_x :: real
  p_y :: real
  p_vx :: real
  p_vy :: real
  p_radius :: real
  p_life :: real
  p_decay :: real
  p_hue :: real

record finger =
  f_x :: real
  f_y :: real
  detected :: bool

record shake =
  sh_x :: real
  sh_y :: real
  intensity :: real

text \<open>
  The fields up to \<open>debugMode\<close> are those of the object \<^verbatim>\<open>state\<close>. \<open>lastFrameTime\<close> is the
  module variable of that name, \<open>canvasWidth\<close> and \<open>canvasHeight\<close> the size of
  \<^verbatim>\<open>elements.gameCanvas\<close>, \<open>localStorage\<close> the stored item \<^verbatim>\<open>asteroidHighScore\<close>
  (\<open>None\<close> when it was never written), and the last four fields the environment described
  above.
\<close>

record state =
  isPlaying :: bool
  score :: int
  highScore :: int
  lives :: int
  combo :: int
  lastDestroyTime :: real
  fingerPosition :: finger
  positionHistory :: "(real \<times> real) list"
  asteroids :: "asteroid list"
  particles :: "particle list"
  screenShake :: shake
  gameTime :: real
  lastSpawnTime :: real
  handsReady :: bool
  debugMode :: bool
  lastFrameTime :: real
  canvasWidth :: real
  canvasHeight :: real
  localStorage :: "int option"
  rand :: "nat \<Rightarrow> real"
  randIx :: nat
  dateNow :: "nat \<Rightarrow> real"
  nowIx :: nat

text \<open>The state at page load: the literal \<^verbatim>\<open>state\<close>, with
  \<^verbatim>\<open>parseInt(localStorage.getItem('asteroidHighScore')) || 0\<close> as high score.\<close>

definition initialState ::
  "real \<Rightarrow> real \<Rightarrow> int option \<Rightarrow> (nat \<Rightarrow> real) \<Rightarrow> (nat \<Rightarrow> real) \<Rightarrow> state" where
  "initialState w h stored rnd clock =
     \<lparr> isPlaying = False, score = 0,
       highScore = (case stored of None \<Rightarrow> 0 | Some v \<Rightarrow> v),
       lives = initialLives CONFIG, combo = 1, lastDestroyTime = 0,
       fingerPosition = \<lparr> f_x = 0, f_y = 0, detected = False \<rparr>,
       positionHistory = [], asteroids = [], particles = [],
       screenShake = \<lparr> sh_x = 0, sh_y = 0, intensity = 0 \<rparr>,
       gameTime = 0, lastSpawnTime = 0, handsReady = False, debugMode = True,
       lastFrameTime = 0, canvasWidth = w, canvasHeight = h, localStorage = stored,
       rand = rnd, randIx = 0, dateNow = clock, nowIx = 0 \<rparr>"

text \<open>The \<open>k\<close>-th next value of \<^verbatim>\<open>Math.random()\<close> (\<open>k = 0\<close> for the next call).\<close>

definition random :: "state \<Rightarrow> nat \<Rightarrow> real" where
  "random s k = rand s (randIx s + k)"

section \<open>Hand tracking input\<close>

record landmark =
  lm_x :: real
  lm_y :: real

datatype error = TypeError

text \<open>
  \<^verbatim>\<open>onHandResults(results)\<close>, with \<^verbatim>\<open>results.multiHandLandmarks\<close> as argument (\<open>None\<close> when
  the property is missing). \<^verbatim>\<open>drawHandSkeleton\<close> reads the landmarks 0 to 20 of the first
  hand before the cursor is touched, so a hand with fewer than 21 landmarks raises a
  TypeError there. In the branch without a hand, \<^verbatim>\<open>state.debugMode && Math.random() < 0.01\<close>
  makes a call of \<^verbatim>\<open>Math.random()\<close> in debug mode.
\<close>

definition onHandResults :: "landmark list list option \<Rightarrow> state \<Rightarrow> error + state" where
  "onHandResults multiHandLandmarks s =
     (case multiHandLandmarks of
        Some (landmarks # others) \<Rightarrow>
          if length landmarks < 21 then Inl TypeError
          else
            let indexTip = landmarks ! 8;
                gameX = (1 - lm_x indexTip) * canvasWidth s;
                gameY = lm_y indexTip * canvasHeight s;
                fp = fingerPosition s;
                fp' = (if detected fp
                       then fp\<lparr> f_x := lerp (f_x fp) gameX (fingerSmoothing CONFIG),
                                f_y := lerp (f_y fp) gameY (fingerSmoothing CONFIG) \<rparr>
                       else fp\<lparr> f_x := gameX, f_y := gameY \<rparr>);
                fp'' = fp'\<lparr> detected := True \<rparr>;
                hist = positionHistory s @ [(f_x fp'', f_y fp'')];
                hist' = (if length hist > trailLength CONFIG then tl hist else hist)
            in Inr (s\<lparr> fingerPosition := fp'', positionHistory := hist' \<rparr>)
      | _ \<Rightarrow>
          Inr (s\<lparr> fingerPosition := (fingerPosition s)\<lparr> detected := False \<rparr>,
                 randIx := (if debugMode s then randIx s + 1 else randIx s) \<rparr>))"

section \<open>Asteroids\<close>

text \<open>\<^verbatim>\<open>generateAsteroidShape()\<close>: one call of \<^verbatim>\<open>Math.random()\<close> for the number of
  vertices, then one for each vertex. The result comes with the number of calls made.\<close>

definition generateAsteroidShape :: "(nat \<Rightarrow> real) \<Rightarrow> vertex list \<times> nat" where
  "generateAsteroidShape r =
     (let numVertices = 8 + \<lfloor>fl (r 0 * 5)\<rfloor>;
          n = nat numVertices
      in (map (\<lambda>i. \<lparr> v_angle = fl (fl (fl (real i / real_of_int numVertices) * fl pi) * 2),
                       v_radius = fl (fl 0.7 + fl (r (1 + i) * fl 0.3)) \<rparr>) [0..<n],
          1 + n))"

definition difficultyMultiplier :: "real \<Rightarrow> real" where
  "difficultyMultiplier t = min 2 (fl (1 + fl (t / difficultyRampTime CONFIG)))"

definition spawnInterval :: "real \<Rightarrow> real" where
  "spawnInterval t =
     max (minSpawnInterval CONFIG) (fl (asteroidSpawnInterval CONFIG - fl (t / 100)))"

text \<open>The factor \<^verbatim>\<open>0.8 + Math.random() * 0.4\<close> of the speed, from the value \<open>r\<close> of
  \<^verbatim>\<open>Math.random()\<close>, and the speed \<^verbatim>\<open>CONFIG.baseAsteroidSpeed * difficultyMultiplier * (...)\<close>
  at the game time \<open>t\<close>.\<close>

definition speedFactor :: "real \<Rightarrow> real" where
  "speedFactor r = fl (fl 0.8 + fl (r * fl 0.4))"

definition asteroidSpeed :: "real \<Rightarrow> real \<Rightarrow> real" where
  "asteroidSpeed t r =
     fl (fl (baseAsteroidSpeed CONFIG * difficultyMultiplier t) * speedFactor r)"

text \<open>
  \<^verbatim>\<open>spawnAsteroid()\<close>. The \<^verbatim>\<open>switch\<close> has no default case: for a side other than 0 to 3
  the source leaves \<^verbatim>\<open>x\<close> and \<^verbatim>\<open>y\<close> undefined, which arithmetic takes as \<^verbatim>\<open>NaN\<close>,
  and draws no position.
\<close>

definition spawnAsteroid :: "state \<Rightarrow> state" where
  "spawnAsteroid s =
     (let w = canvasWidth s; h = canvasHeight s;
          side = \<lfloor>fl (random s 0 * 4)\<rfloor>;
          (x, y, k) =
            (if side = 0 then (Fin (fl (random s 1 * w)), Fin (- 50), 2)
             else if side = 1 then (Fin (fl (w + 50)), Fin (fl (random s 1 * h)), 2)
             else if side = 2 then (Fin (fl (random s 1 * w)), Fin (fl (h + 50)), 2)
             else if side = 3 then (Fin (- 50), Fin (fl (random s 1 * h)), 2)
             else (NaN, NaN, 1::nat));
          centerX = fl (fl (w / 2) + fl (fl (random s k - 0.5) * 200));
          centerY = fl (fl (h / 2) + fl (fl (random s (k + 1) - 0.5) * 200));
          dx = jsub (Fin centerX) x;
          dy = jsub (Fin centerY) y;
          dist = jsqrt (jadd (jmul dx dx) (jmul dy dy));
          speed = asteroidSpeed (gameTime s) (random s (k + 2));
          (shape, m) = generateAsteroidShape (\<lambda>i. random s (k + 6 + i))
      in s\<lparr> asteroids := asteroids s @
               [\<lparr> a_x = x, a_y = y,
                  a_vx = jmul (jdiv dx dist) (Fin speed),
                  a_vy = jmul (jdiv dy dist) (Fin speed),
                  a_radius = fl (30 + fl (random s (k + 3) * 30)),
                  a_rotation = fl (fl (random s (k + 4) * fl pi) * 2),
                  a_rotationSpeed = fl (fl (random s (k + 5) - 0.5) * fl 0.05),
                  a_vertices = shape,
                  a_hue = fl (20 + fl (random s (k + 6 + m) * 20)) \<rparr>],
             randIx := randIx s + k + 7 + m \<rparr>)"

section \<open>Particles\<close>

text \<open>\<^verbatim>\<open>createExplosion(x, y, size)\<close> (\<open>sz\<close> is the source's \<^verbatim>\<open>size\<close>): five calls of \<^verbatim>\<open>Math.random()\<close> for each particle
  (angle, speed, hue, radius, decay, in this order).\<close>

definition createExplosion :: "real \<Rightarrow> real \<Rightarrow> real \<Rightarrow> state \<Rightarrow> state" where
  "createExplosion x y sz s =
     (let n = nat \<lfloor>fl (particleCount CONFIG * fl (sz / 30))\<rfloor>
      in s\<lparr> particles := particles s @
               map (\<lambda>i. let angle = fl (fl (random s (5 * i) * fl pi) * 2);
                             speed = fl (2 + fl (random s (5 * i + 1) * 5));
                             hue = fl (fl (random s (5 * i + 2) * 60) + 10)
                         in \<lparr> p_x = x, p_y = y,
                              p_vx = fl (Math_cos angle * speed),
                              p_vy = fl (Math_sin angle * speed),
                              p_radius = fl (3 + fl (random s (5 * i + 3) * 5)),
                              p_life = 1,
                              p_decay = fl (fl 0.02 + fl (random s (5 * i + 4) * fl 0.02)),
                              p_hue = hue \<rparr>) [0..<n],
             randIx := randIx s + 5 * n \<rparr>)"

text \<open>The body of the loop of \<^verbatim>\<open>updateParticles()\<close> up to the test, on one particle, in
  exact arithmetic.\<close>

definition stepParticle :: "particle \<Rightarrow> particle" where
  "stepParticle p =
     p\<lparr> p_x := p_x p + p_vx p, p_y := p_y p + p_vy p,
        p_vx := p_vx p * 0.98, p_vy := p_vy p * 0.98,
        p_life := p_life p - p_decay p,
        p_radius := p_radius p * 0.97 \<rparr>"

definition deadParticle :: "particle \<Rightarrow> bool" where
  "deadParticle p \<longleftrightarrow> p_life p \<le> 0 \<or> p_radius p < 0.5"

text \<open>\<^verbatim>\<open>xs.splice(i, 1)\<close>.\<close>

definition splice1 :: "nat \<Rightarrow> 'a list \<Rightarrow> 'a list" where
  "splice1 i xs = take i xs @ drop (Suc i) xs"

text \<open>The loop \<^verbatim>\<open>for (let i = length - 1; i >= 0; i--)\<close> of \<^verbatim>\<open>updateParticles()\<close>;
  the first argument is \<open>i + 1\<close>.\<close>

fun updateParticlesLoop :: "nat \<Rightarrow> particle list \<Rightarrow> particle list" where
  "updateParticlesLoop 0 ps = ps"
| "updateParticlesLoop (Suc i) ps =
     (let p = stepParticle (ps ! i);
          ps' = ps[i := p]
      in updateParticlesLoop i (if deadParticle p then splice1 i ps' else ps'))"

definition updateParticles :: "state \<Rightarrow> state" where
  "updateParticles s =
     s\<lparr> particles := updateParticlesLoop (length (particles s)) (particles s) \<rparr>"

section \<open>Session and score\<close>

definition gameOver :: "state \<Rightarrow> state" where
  "gameOver s =
     (let s1 = s\<lparr> isPlaying := False \<rparr>
      in if score s1 > highScore s1
         then s1\<lparr> highScore := score s1, localStorage := Some (score s1) \<rparr>
         else s1)"

definition loseLife :: "state \<Rightarrow> state" where
  "loseLife s =
     (let s1 = s\<lparr> lives := lives s - 1 \<rparr>
      in if lives s1 \<le> 0 then gameOver s1 else s1)"

text \<open>The combo and score update of a destroyed asteroid (in \<^verbatim>\<open>updateAsteroids\<close>, from
  \<^verbatim>\<open>const now = Date.now()\<close> to the screen shake), given the value read from the clock and
  the radius of the asteroid.\<close>

definition scoreDestroy :: "real \<Rightarrow> real \<Rightarrow> state \<Rightarrow> state" where
  "scoreDestroy now radius s =
     (let c = (if fl (now - lastDestroyTime s) < comboTimeout CONFIG
               then min 10 (combo s + 1) else 1);
          points = Math_round (fl (fl (10 * real_of_int c) * fl (radius / 30)))
      in s\<lparr> combo := c, lastDestroyTime := now, score := score s + points,
             screenShake := (screenShake s)\<lparr> intensity := 10 \<rparr> \<rparr>)"

section \<open>The simulation step\<close>

definition moveAsteroid :: "asteroid \<Rightarrow> asteroid" where
  "moveAsteroid a =
     a\<lparr> a_x := jadd (a_x a) (a_vx a), a_y := jadd (a_y a) (a_vy a),
        a_rotation := fl (a_rotation a + a_rotationSpeed a) \<rparr>"

text \<open>The two tests of \<^verbatim>\<open>updateAsteroids\<close>, on an asteroid that has moved. In the second,
  \<^verbatim>\<open>Math.pow(d, 2)\<close> is taken as the rounded product \<^verbatim>\<open>d * d\<close>.\<close>

definition cursorHit :: "state \<Rightarrow> asteroid \<Rightarrow> bool" where
  "cursorHit s a \<longleftrightarrow>
     detected (fingerPosition s) \<and>
     (let dx = jsub (a_x a) (Fin (f_x (fingerPosition s)));
          dy = jsub (a_y a) (Fin (f_y (fingerPosition s)));
          dist = jsqrt (jadd (jmul dx dx) (jmul dy dy))
      in jless dist (Fin (fl (a_radius a + cursorRadius CONFIG))))"

definition centerHit :: "state \<Rightarrow> asteroid \<Rightarrow> bool" where
  "centerHit s a \<longleftrightarrow>
     (let centerX = fl (canvasWidth s / 2);
          centerY = fl (canvasHeight s / 2);
          px = jsub (a_x a) (Fin centerX);
          py = jsub (a_y a) (Fin centerY);
          distToCenter = jsqrt (jadd (jmul px px) (jmul py py))
      in jless distToCenter (Fin 50))"

text \<open>One iteration of the loop of \<^verbatim>\<open>updateAsteroids\<close>, at index \<open>i\<close>. When a coordinate
  of the asteroid is \<^verbatim>\<open>NaN\<close> both tests are false and the asteroid stays; otherwise the
  explosion is created at its coordinates.\<close>

definition asteroidStep :: "nat \<Rightarrow> state \<Rightarrow> state" where
  "asteroidStep i s =
     (let asteroid = moveAsteroid (asteroids s ! i);
          s1 = s\<lparr> asteroids := (asteroids s)[i := asteroid] \<rparr>
      in case (a_x asteroid, a_y asteroid) of
           (Fin x, Fin y) \<Rightarrow>
             if cursorHit s1 asteroid then
               let s2 = createExplosion x y (a_radius asteroid) s1;
                   s3 = s2\<lparr> asteroids := splice1 i (asteroids s2) \<rparr>;
                   now = dateNow s3 (nowIx s3);
                   s4 = s3\<lparr> nowIx := nowIx s3 + 1 \<rparr>
               in scoreDestroy now (a_radius asteroid) s4
             else if centerHit s1 asteroid then
               let s2 = s1\<lparr> asteroids := splice1 i (asteroids s1) \<rparr>;
                   s3 = loseLife s2
               in s3\<lparr> screenShake := (screenShake s3)\<lparr> intensity := 20 \<rparr> \<rparr>
             else s1
         | _ \<Rightarrow> s1)"

text \<open>The loop \<^verbatim>\<open>for (let i = state.asteroids.length - 1; i >= 0; i--)\<close>; the first
  argument is \<open>i + 1\<close>.\<close>

fun updateAsteroidsLoop :: "nat \<Rightarrow> state \<Rightarrow> state" where
  "updateAsteroidsLoop 0 s = s"
| "updateAsteroidsLoop (Suc i) s = updateAsteroidsLoop i (asteroidStep i s)"

definition updateAsteroids :: "state \<Rightarrow> state" where
  "updateAsteroids s = updateAsteroidsLoop (length (asteroids s)) s"

section \<open>Frames\<close>

text \<open>\<^verbatim>\<open>render()\<close> changes the state only through the screen shake; it calls
  \<^verbatim>\<open>Math.random()\<close> twice when the screen shakes and \<^verbatim>\<open>Date.now()\<close> once
  (in \<^verbatim>\<open>drawCenterZone\<close>).\<close>

definition render :: "state \<Rightarrow> state" where
  "render s =
     (let s1 = (if intensity (screenShake s) > 0
                then s\<lparr> screenShake := (screenShake s)\<lparr> intensity :=
                                           fl (intensity (screenShake s) * fl 0.9) \<rparr>,
                       randIx := randIx s + 2 \<rparr>
                else s)
      in s1\<lparr> nowIx := nowIx s1 + 1 \<rparr>)"

text \<open>\<^verbatim>\<open>gameLoop(currentTime)\<close>, one frame. The call of \<^verbatim>\<open>requestAnimationFrame\<close> at its
  end is the next application of \<open>gameLoop\<close>, to a later time.\<close>

definition gameLoop :: "real \<Rightarrow> state \<Rightarrow> state" where
  "gameLoop currentTime s =
     (if \<not> isPlaying s then s
      else
        let deltaTime = fl (currentTime - lastFrameTime s);
            s1 = s\<lparr> lastFrameTime := currentTime, gameTime := fl (gameTime s + deltaTime) \<rparr>;
            s2 = (if fl (currentTime - lastSpawnTime s1) > spawnInterval (gameTime s1)
                  then (spawnAsteroid s1)\<lparr> lastSpawnTime := currentTime \<rparr>
                  else s1);
            s3 = updateAsteroids s2;
            s4 = updateParticles s3;
            now = dateNow s4 (nowIx s4);
            s5 = s4\<lparr> nowIx := nowIx s4 + 1 \<rparr>;
            s6 = (if fl (now - lastDestroyTime s5) > comboTimeout CONFIG \<and> combo s5 > 1
                  then s5\<lparr> combo := 1 \<rparr> else s5)
        in render s6)"

text \<open>
  \<^verbatim>\<open>startGame()\<close>, from the result of \<^verbatim>\<open>initWebcam()\<close> and the value of
  \<^verbatim>\<open>performance.now()\<close>. Without a webcam it returns before the reset.
  \<^verbatim>\<open>initHandTracking()\<close> sets \<^verbatim>\<open>handsReady\<close> on both of its paths.
\<close>

definition startGame :: "bool \<Rightarrow> real \<Rightarrow> state \<Rightarrow> state" where
  "startGame webcamReady perfNow s =
     (if \<not> webcamReady then s
      else s\<lparr> handsReady := True,
               isPlaying := True,
               score := 0,
               lives := initialLives CONFIG,
               combo := 1,
               asteroids := [],
               particles := [],
               gameTime := 0,
               lastSpawnTime := 0,
               fingerPosition := \<lparr> f_x = 0, f_y = 0, detected = False \<rparr>,
               positionHistory := [],
               debugMode := False,
               lastFrameTime := perfNow \<rparr>)"

section \<open>Events\<close>

text \<open>The callbacks through which the browser drives the game. A TypeError raised by
  \<^verbatim>\<open>onHandResults\<close> is raised before the state is written, so it leaves the state as it
  was.\<close>

datatype event =
  StartGame bool real
  | GameLoop real
  | HandResults "landmark list list option"

fun handle :: "event \<Rightarrow> state \<Rightarrow> state" where
  "handle (StartGame webcamReady perfNow) s = startGame webcamReady perfNow s"
| "handle (GameLoop currentTime) s = gameLoop currentTime s"
| "handle (HandResults r) s = (case onHandResults r s of Inl e \<Rightarrow> s | Inr s' \<Rightarrow> s')"

fun isStart :: "event \<Rightarrow> bool" where
  "isStart (StartGame webcamReady perfNow) = True"
| "isStart (GameLoop currentTime) = False"
| "isStart (HandResults r) = False"

definition run :: "event list \<Rightarrow> state \<Rightarrow> state" where
  "run es s = fold handle es s"

section \<open>Notions used in the properties\<close>

text \<open>An asteroid that has moved stays in the store when neither test of
  \<open>asteroidStep\<close> removes it.\<close>

definition survives :: "state \<Rightarrow> asteroid \<Rightarrow> bool" where
  "survives s a \<longleftrightarrow> \<not> cursorHit s a \<and> \<not> centerHit s a"

text \<open>The value that \<^verbatim>\<open>parseInt(localStorage.getItem('asteroidHighScore')) || 0\<close> reads.\<close>

definition loadHighScore :: "int option \<Rightarrow> int" where
  "loadHighScore stored = (case stored of None \<Rightarrow> 0 | Some v \<Rightarrow> v)"

text \<open>A game over reached with the score \<open>sc\<close>.\<close>

definition gameOverWith :: "int \<Rightarrow> state \<Rightarrow> state" where
  "gameOverWith sc s = gameOver (s\<lparr> score := sc \<rparr>)"

text \<open>From \<open>s\<close> to \<open>t\<close> the high score has not gone down, and it is still the stored value
  if it was.\<close>

definition hsKept :: "state \<Rightarrow> state \<Rightarrow> bool" where
  "hsKept s t \<longleftrightarrow>
     highScore s \<le> highScore t \<and>
     (loadHighScore (localStorage s) = highScore s \<longrightarrow>
        loadHighScore (localStorage t) = highScore t)"

text \<open>The bounds that \<open>spawnAsteroid\<close> gives to the fields of an asteroid that the
  game never writes again. The radius and the hue reach their upper ends; \<open>fl 0.7\<close> and
  \<open>fl 0.025\<close> are the doubles that the literals \<^verbatim>\<open>0.7\<close> and \<^verbatim>\<open>0.025\<close> denote.\<close>

definition wellShaped :: "asteroid \<Rightarrow> bool" where
  "wellShaped a \<longleftrightarrow>
     30 \<le> a_radius a \<and> a_radius a \<le> 60
     \<and> 8 \<le> length (a_vertices a) \<and> length (a_vertices a) < 13
     \<and> list_all (\<lambda>v. fl 0.7 \<le> v_radius v \<and> v_radius v < 1) (a_vertices a)
     \<and> - fl 0.025 \<le> a_rotationSpeed a \<and> a_rotationSpeed a < fl 0.025
     \<and> 20 \<le> a_hue a \<and> a_hue a \<le> 40"

text \<open>\<^verbatim>\<open>Math.random()\<close> returns doubles in \<open>[0, 1)\<close>.\<close>

definition randomOk :: "state \<Rightarrow> bool" where
  "randomOk s \<longleftrightarrow> (\<forall>n. 0 \<le> rand s n \<and> rand s n < 1 \<and> fl (rand s n) = rand s n)"

section \<open>Example states\<close>

text \<open>The states and values at which the theorems below are evaluated: a canvas of 800 by
  600, \<^verbatim>\<open>Math.random()\<close> returning 0 and a clock that starts at 1000000.\<close>

definition exampleState :: state where
  "exampleState = initialState 800 600 None (\<lambda>n. 0) (\<lambda>n. 1000000 + real n)"

definition exampleParticle :: particle where
  "exampleParticle = \<lparr> p_x = 10, p_y = 20, p_vx = 2, p_vy = 0, p_radius = 3,
     p_life = 1, p_decay = 0.02, p_hue = 10 \<rparr>"

definition exampleShape :: "vertex list" where
  "exampleShape = map (\<lambda>i. \<lparr> v_angle = fl (fl (fl (real i / 8) * fl pi) * 2),
                              v_radius = fl 0.7 \<rparr>) [0..<8]"

text \<open>An asteroid of radius 30 at \<open>(x, y)\<close> with the velocity \<open>(vx, vy)\<close>.\<close>

definition incomingAsteroid :: "real \<Rightarrow> real \<Rightarrow> real \<Rightarrow> real \<Rightarrow> asteroid" where
  "incomingAsteroid x y vx vy = \<lparr> a_x = Fin x, a_y = Fin y, a_vx = Fin vx, a_vy = Fin vy,
     a_radius = 30, a_rotation = 0, a_rotationSpeed = 0, a_vertices = exampleShape,
     a_hue = 20 \<rparr>"

definition exampleAsteroid :: "real \<Rightarrow> real \<Rightarrow> asteroid" where
  "exampleAsteroid x y = incomingAsteroid x y 0 0"

text \<open>The cursor at \<open>(100, 100)\<close> and three asteroids of radius 30 at the distances 90, 80
  and 100 from it.\<close>

definition exampleCursorState :: state where
  "exampleCursorState = exampleState\<lparr>
     fingerPosition := \<lparr> f_x = 100, f_y = 100, detected = True \<rparr>,
     asteroids := [exampleAsteroid 154 172, exampleAsteroid 148 164, exampleAsteroid 160 180] \<rparr>"

text \<open>The radius that \<open>spawnAsteroid\<close> gives when \<^verbatim>\<open>Math.random()\<close> returns \<open>1 / 2 ^ 53\<close>,
  the double next above 30, on an asteroid at the distance 90 from the cursor.\<close>

definition boundaryAsteroid :: asteroid where
  "boundaryAsteroid = (exampleAsteroid 154 172)\<lparr> a_radius := 30 + 1 / 2 ^ 48 \<rparr>"

definition exampleBoundaryState :: state where
  "exampleBoundaryState = exampleState\<lparr>
     fingerPosition := \<lparr> f_x = 100, f_y = 100, detected = True \<rparr>,
     asteroids := [boundaryAsteroid] \<rparr>"

text \<open>\<^verbatim>\<open>Math.random()\<close> returning the greatest double below 1.\<close>

definition exampleMaxRandomState :: state where
  "exampleMaxRandomState =
     initialState 800 600 None (\<lambda>n. 1 - 1 / 2 ^ 53) (\<lambda>n. 1000000 + real n)"

text \<open>A canvas of 100 by 100 and values of \<^verbatim>\<open>Math.random()\<close> for which the spawn point
  \<open>(50, -50)\<close> is the target.\<close>

definition exampleSmallCanvasState :: state where
  "exampleSmallCanvasState =
     initialState 100 100 None (\<lambda>n. if n = 1 \<or> n = 2 then 1 / 2 else 0)
       (\<lambda>n. 1000000 + real n)"

definition exampleFreshSession :: state where
  "exampleFreshSession = startGame True 0 exampleState"

text \<open>Three lives, no cursor, and four asteroids that are 51 away from the centre of the
  canvas, each moving towards it by 2 a frame.\<close>

definition exampleImpactState :: state where
  "exampleImpactState = exampleState\<lparr> isPlaying := True,
     asteroids := [incomingAsteroid 451 300 (- 2) 0, incomingAsteroid 349 300 2 0,
                   incomingAsteroid 400 351 0 (- 2), incomingAsteroid 400 249 0 2] \<rparr>"

definition exampleStartedState :: state where
  "exampleStartedState = exampleState\<lparr> isPlaying := True \<rparr>"

definition exampleHighScoreState :: state where
  "exampleHighScoreState = (initialState 800 600 (Some 100) (\<lambda>n. 0) (\<lambda>n. 1000000 + real n))
     \<lparr> score := 250 \<rparr>"

definition exampleOldSession :: state where
  "exampleOldSession = exampleState\<lparr> isPlaying := False, score := 120, lives := 0,
     combo := 4, lastDestroyTime := 1700000005000,
     fingerPosition := \<lparr> f_x = 10, f_y = 20, detected = True \<rparr>,
     positionHistory := [(10, 20)],
     asteroids := [exampleAsteroid 0 0], particles := [exampleParticle],
     gameTime := 40000, lastSpawnTime := 39000 \<rparr>"


section \<open>Rounding\<close>

lemma rne_int: "rne (of_int n) = n"
  by (simp add: rne_def)

lemma rne_range: "\<lfloor>q\<rfloor> \<le> rne q \<and> rne q \<le> \<lfloor>q\<rfloor> + 1"
  by (simp add: rne_def Let_def)

lemma rne_mono:
  assumes "q \<le> q'"
  shows "rne q \<le> rne q'"
proof (cases "\<lfloor>q\<rfloor> = \<lfloor>q'\<rfloor>")
  case True
  with assms show ?thesis by (auto simp: rne_def Let_def)
next
  case False
  with assms have "\<lfloor>q\<rfloor> < \<lfloor>q'\<rfloor>" using floor_mono[OF assms] by linarith
  with rne_range[of q] rne_range[of q'] show ?thesis by linarith
qed

lemma rne_minus: "rne (- q) = - rne q"
proof (cases "q = of_int \<lfloor>q\<rfloor>")
  case True
  then obtain n where "q = of_int n" ..
  then show ?thesis by (simp add: rne_int flip: of_int_minus)
next
  case False
  then have f: "\<lfloor>- q\<rfloor> = - \<lfloor>q\<rfloor> - 1"
    by (metis ceiling_altdef ceiling_def add_diff_cancel_right' minus_diff_eq diff_minus_eq_add
        minus_minus uminus_add_conv_diff)
  show ?thesis
    unfolding rne_def Let_def f by (auto simp: algebra_simps)
qed

lemma expo_eq:
  assumes "2 powi e \<le> \<bar>x\<bar>" "\<bar>x\<bar> < 2 powi (e + 1)"
  shows "expo x = e"
proof -
  have pos: "0 < \<bar>x\<bar>" using assms(1) zero_less_power_int[of "2::real" e] by linarith
  have "(2::real) powr real_of_int e = 2 powi e" "(2::real) powr (real_of_int e + 1) = 2 powi (e + 1)"
    using powr_real_of_int'[of "2::real" e] powr_real_of_int'[of "2::real" "e + 1"] by simp_all
  with assms show ?thesis
    unfolding expo_def using floor_log_eq_powr_iff[of "\<bar>x\<bar>" 2 e] pos by simp
qed

lemma expo_bounds:
  assumes "x \<noteq> 0"
  shows "2 powi (expo x) \<le> \<bar>x\<bar> \<and> \<bar>x\<bar> < 2 powi (expo x + 1)"
proof -
  have pos: "0 < \<bar>x\<bar>" using assms by simp
  have "(2::real) powr real_of_int (expo x) = 2 powi (expo x)"
    "(2::real) powr (real_of_int (expo x) + 1) = 2 powi (expo x + 1)"
    using powr_real_of_int'[of "2::real" "expo x"] powr_real_of_int'[of "2::real" "expo x + 1"]
    by simp_all
  then show ?thesis
    using floor_log_eq_powr_iff[of "\<bar>x\<bar>" 2 "expo x"] pos by (simp add: expo_def)
qed

lemma fl_eval:
  assumes "2 powi e \<le> \<bar>x\<bar>" "\<bar>x\<bar> < 2 powi (e + 1)"
  shows "fl x = of_int (rne (x / 2 powi (e - 52))) * 2 powi (e - 52)"
proof -
  have "0 < (2::real) powi e" by simp
  with assms(1) have "0 < \<bar>x\<bar>" by linarith
  then have "x \<noteq> 0" by simp
  then show ?thesis by (simp add: fl_def expo_eq[OF assms])
qed

lemma fl_zero: "fl 0 = 0"
  by (simp add: fl_def)

lemma expo_minus: "expo (- x) = expo x"
  by (simp add: expo_def)

lemma fl_minus: "fl (- x) = - fl x"
  by (simp add: fl_def expo_minus rne_minus)


lemma powi_split: "(2::real) powi (int n + e) = 2 ^ n * 2 powi e"
  using power_int_add[of "2::real" "int n" e] by simp

lemma powi_less_cancel:
  assumes "(2::real) powi a < 2 powi b"
  shows "a < b"
proof (rule ccontr)
  assume "\<not> a < b"
  then have "b \<le> a" by simp
  then have "(2::real) powi b \<le> 2 powi a" by (intro power_int_increasing) simp_all
  with assms show False by simp
qed

lemma fl_pos_bounds:
  assumes "0 < x"
  shows "2 powi (expo x) \<le> fl x \<and> fl x \<le> 2 powi (expo x + 1)"
proof -
  let ?e = "expo x"
  let ?u = "(2::real) powi (?e - 52)"
  have u: "0 < ?u" by simp
  from expo_bounds[of x] assms have b: "2 powi ?e \<le> x" "x < 2 powi (?e + 1)" by simp_all
  have lo: "(2::real) powi ?e = of_int (2 ^ 52) * ?u"
    using powi_split[of 52 "?e - 52"] by simp
  have hi: "(2::real) powi (?e + 1) = of_int (2 ^ 53) * ?u"
    using powi_split[of 53 "?e - 52"] by (simp add: algebra_simps)
  have "of_int (2 ^ 52) \<le> x / ?u" using b(1) u unfolding lo by (simp add: field_simps)
  then have "rne (of_int (2 ^ 52)) \<le> rne (x / ?u)" by (rule rne_mono)
  then have l: "2 ^ 52 \<le> rne (x / ?u)" by (simp only: rne_int)
  have "x / ?u \<le> of_int (2 ^ 53)" using b(2) u unfolding hi by (simp add: field_simps)
  then have "rne (x / ?u) \<le> rne (of_int (2 ^ 53))" by (rule rne_mono)
  then have h: "rne (x / ?u) \<le> 2 ^ 53" by (simp only: rne_int)
  have "fl x = of_int (rne (x / ?u)) * ?u" using assms by (simp add: fl_def)
  moreover have "of_int (2 ^ 52) * ?u \<le> of_int (rne (x / ?u)) * ?u"
    using l u by (intro mult_right_mono) simp_all
  moreover have "of_int (rne (x / ?u)) * ?u \<le> of_int (2 ^ 53) * ?u"
    using h u by (intro mult_right_mono) simp_all
  ultimately show ?thesis unfolding lo hi by simp
qed

lemma expo_mono:
  assumes "0 < x" "x \<le> y"
  shows "expo x \<le> expo y"
  unfolding expo_def using assms by (intro floor_mono) simp

lemma fl_mono_pos:
  assumes "0 < x" "x \<le> y"
  shows "fl x \<le> fl y"
proof (cases "expo x = expo y")
  case True
  let ?u = "(2::real) powi (expo y - 52)"
  have "x / ?u \<le> y / ?u" using assms(2) by (simp add: divide_right_mono)
  then have "rne (x / ?u) \<le> rne (y / ?u)" by (rule rne_mono)
  then have "of_int (rne (x / ?u)) * ?u \<le> of_int (rne (y / ?u)) * ?u"
    by (intro mult_right_mono) simp_all
  with assms True show ?thesis by (simp add: fl_def)
next
  case False
  with expo_mono[OF assms] have "expo x + 1 \<le> expo y" by simp
  then have "(2::real) powi (expo x + 1) \<le> 2 powi (expo y)"
    by (intro power_int_increasing) simp_all
  moreover from assms have "0 < y" by simp
  ultimately show ?thesis
    using fl_pos_bounds[OF assms(1)] fl_pos_bounds[OF \<open>0 < y\<close>] by linarith
qed

lemma fl_nonneg: "0 \<le> x \<Longrightarrow> 0 \<le> fl x"
proof (cases "x = 0")
  case False
  assume "0 \<le> x"
  with False have "0 < x" by simp
  from fl_pos_bounds[OF this] zero_less_power_int[of "2::real" "expo x"] show ?thesis by linarith
qed (simp add: fl_zero)

lemma fl_mono:
  assumes "x \<le> y"
  shows "fl x \<le> fl y"
proof -
  consider "0 < x" | "x \<le> 0" "0 \<le> y" | "y < 0" by linarith
  then show ?thesis
  proof cases
    case 1
    then show ?thesis using assms by (rule fl_mono_pos)
  next
    case 2
    then have "0 \<le> fl (- x)" "0 \<le> fl y" by (simp_all add: fl_nonneg)
    then show ?thesis by (simp add: fl_minus)
  next
    case 3
    then have "0 < - y" "- y \<le> - x" using assms by simp_all
    then have "fl (- y) \<le> fl (- x)" by (rule fl_mono_pos)
    then show ?thesis by (simp add: fl_minus)
  qed
qed

lemma fl_exact:
  assumes "\<bar>m\<bar> < 2 ^ 53"
  shows "fl (of_int m * 2 powi k) = of_int m * 2 powi k"
proof (cases "m = 0")
  case True
  then show ?thesis by (simp add: fl_zero)
next
  case False
  let ?x = "of_int m * (2::real) powi k"
  have x0: "?x \<noteq> 0" using False by simp
  let ?e = "expo ?x"
  from expo_bounds[OF x0] have "2 powi ?e \<le> \<bar>?x\<bar>" by simp
  also have "\<bar>?x\<bar> = of_int \<bar>m\<bar> * 2 powi k" by (simp add: abs_mult)
  also have "\<dots> < of_int (2 ^ 53) * 2 powi k"
    using assms by (intro mult_strict_right_mono) (simp_all flip: of_int_less_iff)
  also have "\<dots> = 2 powi (53 + k)"
    using powi_split[of 53 k] by simp
  finally have "(2::real) powi ?e < 2 powi (53 + k)" .
  then have "?e < 53 + k" by (rule powi_less_cancel)
  then have d: "0 \<le> k - (?e - 52)" by simp
  have "?x / 2 powi (?e - 52) = of_int m * 2 powi (k - (?e - 52))"
    by (simp add: power_int_diff)
  also have "\<dots> = of_int (m * 2 ^ nat (k - (?e - 52)))"
    using d powi_split[of "nat (k - (?e - 52))" 0] by simp
  finally have q: "?x / 2 powi (?e - 52) = of_int (m * 2 ^ nat (k - (?e - 52)))" .
  have "fl ?x = of_int (rne (?x / 2 powi (?e - 52))) * 2 powi (?e - 52)"
    using x0 by (simp add: fl_def)
  also have "\<dots> = ?x / 2 powi (?e - 52) * 2 powi (?e - 52)"
    unfolding q by (simp only: rne_int)
  also have "\<dots> = ?x" by simp
  finally show ?thesis .
qed

lemma fl_int: "\<bar>n\<bar> < 2 ^ 53 \<Longrightarrow> fl (of_int n) = of_int n"
  using fl_exact[of n 0] by simp

lemma powi_neg: "(2::real) powi (- int k) = 1 / 2 ^ k"
  by (simp add: power_int_minus field_simps)

lemma fl_eval_pos:
  assumes "2 ^ n \<le> \<bar>x\<bar>" "\<bar>x\<bar> < 2 * 2 ^ n" "n \<le> 52"
  shows "fl x = of_int (rne (x * 2 ^ (52 - n))) / 2 ^ (52 - n)"
proof -
  have a: "(2::real) powi (int n) = 2 ^ n" by simp
  have b: "(2::real) powi (int n + 1) = 2 * 2 ^ n"
    using powi_split[of 1 "int n"] by (simp add: add.commute)
  have "int n - 52 = - int (52 - n)" using assms(3) by simp
  then have c: "(2::real) powi (int n - 52) = 1 / 2 ^ (52 - n)"
    by (simp only: powi_neg)
  from fl_eval[of "int n" x] assms(1,2) show ?thesis
    unfolding a b c by simp
qed

lemma fl_eval_neg:
  assumes "1 / 2 ^ n \<le> \<bar>x\<bar>" "\<bar>x\<bar> < 2 / 2 ^ n"
  shows "fl x = of_int (rne (x * 2 ^ (52 + n))) / 2 ^ (52 + n)"
proof -
  have a: "(2::real) powi (- int n) = 1 / 2 ^ n"
    by (rule powi_neg)
  have b: "(2::real) powi (- int n + 1) = 2 / 2 ^ n"
    using powi_split[of 1 "- int n"] by (simp add: add.commute a)
  have "- int n - 52 = - int (52 + n)" by simp
  then have c: "(2::real) powi (- int n - 52) = 1 / 2 ^ (52 + n)"
    by (simp only: powi_neg)
  from fl_eval[of "- int n" x] assms show ?thesis
    unfolding a b c by simp
qed

lemma fl_numeral: "numeral k < (2 ^ 53 :: int) \<Longrightarrow> fl (numeral k) = numeral k"
  using fl_int[of "numeral k"] by simp

lemma fl_neg_numeral: "numeral k < (2 ^ 53 :: int) \<Longrightarrow> fl (- numeral k) = - numeral k"
  by (simp add: fl_minus fl_numeral)

lemma fl_one: "fl 1 = 1"
  using fl_int[of 1] by simp

lemma fl_half: "fl (1 / 2) = 1 / 2"
  using fl_exact[of 1 "- 1"] by simp

lemma fl_pos: "0 < x \<Longrightarrow> 0 < fl x"
  using fl_pos_bounds[of x] zero_less_power_int[of "2::real" "expo x"] by linarith

lemma fl_eq_0_iff: "fl x = 0 \<longleftrightarrow> x = 0"
proof
  assume z: "fl x = 0"
  show "x = 0"
  proof (rule ccontr)
    assume "x \<noteq> 0"
    then consider "0 < x" | "0 < - x" by linarith
    then show False
    proof cases
      case 1
      from fl_pos[OF this] z show False by simp
    next
      case 2
      from fl_pos[OF this] z show False by (simp add: fl_minus)
    qed
  qed
qed (simp add: fl_zero)

text \<open>The greatest double below 1.\<close>

lemma double_below_one:
  assumes "fl u = u" "u < 1"
  shows "u \<le> 1 - 1 / 2 ^ 53"
proof (cases "u < 1 / 2")
  case True
  then show ?thesis by simp
next
  case False
  then have b: "1 / 2 ^ 1 \<le> \<bar>u\<bar>" "\<bar>u\<bar> < 2 / 2 ^ 1" using assms(2) by simp_all
  from fl_eval_neg[OF b] assms(1)
  have "u * 2 ^ 53 = of_int (rne (u * 2 ^ 53))" by (simp add: field_simps)
  moreover have "u * 2 ^ 53 < 2 ^ 53" using assms(2) by simp
  ultimately have "of_int (rne (u * 2 ^ 53)) < (2 ^ 53 :: real)" by simp
  then have "rne (u * 2 ^ 53) < 2 ^ 53" by (simp flip: of_int_less_iff)
  then have "rne (u * 2 ^ 53) \<le> 2 ^ 53 - 1" by simp
  then have "real_of_int (rne (u * 2 ^ 53)) \<le> 2 ^ 53 - 1" by (simp flip: of_int_le_iff)
  with \<open>u * 2 ^ 53 = of_int (rne (u * 2 ^ 53))\<close> have "u * 2 ^ 53 \<le> 2 ^ 53 - 1" by simp
  then show ?thesis by (simp add: field_simps)
qed

text \<open>Values of \<open>fl\<close> at the literals of the source.\<close>

lemma fl_0_7: "fl 0.7 = 3152519739159347 / 2 ^ 52"
  by (subst fl_eval_neg[of 1]) (simp_all add: rne_def)

lemma fl_0_3: "fl 0.3 = 5404319552844595 / 2 ^ 54"
  by (subst fl_eval_neg[of 2]) (simp_all add: rne_def)

lemma fl_0_05: "fl 0.05 = 3602879701896397 / 2 ^ 56"
  by (subst fl_eval_neg[of 5]) (simp_all add: rne_def)

lemma fl_0_025: "fl 0.025 = 3602879701896397 / 2 ^ 57"
  by (subst fl_eval_neg[of 6]) (simp_all add: rne_def)

lemma fl_0_8: "fl 0.8 = 3602879701896397 / 2 ^ 52"
  by (subst fl_eval_neg[of 1]) (simp_all add: rne_def)

lemma fl_0_4: "fl 0.4 = 3602879701896397 / 2 ^ 53"
  by (subst fl_eval_neg[of 2]) (simp_all add: rne_def)

lemma fl_1_2: "fl 1.2 = 5404319552844595 / 2 ^ 52"
  by (subst fl_eval_pos[of 0]) (simp_all add: rne_def)

lemma fl_0_02: "fl 0.02 = 5764607523034235 / 2 ^ 58"
  by (subst fl_eval_neg[of 6]) (simp_all add: rne_def)

lemma rne_significand:
  assumes "0 < x"
  shows "2 ^ 52 \<le> rne (x / 2 powi (expo x - 52)) \<and> rne (x / 2 powi (expo x - 52)) \<le> 2 ^ 53"
proof -
  let ?e = "expo x"
  let ?u = "(2::real) powi (?e - 52)"
  have u: "0 < ?u" by simp
  from expo_bounds[of x] assms have b: "2 powi ?e \<le> x" "x < 2 powi (?e + 1)" by simp_all
  have lo: "(2::real) powi ?e = of_int (2 ^ 52) * ?u"
    using powi_split[of 52 "?e - 52"] by simp
  have hi: "(2::real) powi (?e + 1) = of_int (2 ^ 53) * ?u"
    using powi_split[of 53 "?e - 52"] by (simp add: algebra_simps)
  have "of_int (2 ^ 52) \<le> x / ?u" using b(1) u unfolding lo by (simp add: field_simps)
  then have "rne (of_int (2 ^ 52)) \<le> rne (x / ?u)" by (rule rne_mono)
  then have l: "2 ^ 52 \<le> rne (x / ?u)" by (simp only: rne_int)
  have "x / ?u \<le> of_int (2 ^ 53)" using b(2) u unfolding hi by (simp add: field_simps)
  then have "rne (x / ?u) \<le> rne (of_int (2 ^ 53))" by (rule rne_mono)
  then have h: "rne (x / ?u) \<le> 2 ^ 53" by (simp only: rne_int)
  from l h show ?thesis by simp
qed

lemma fl_idem_pos:
  assumes "0 < x"
  shows "fl (fl x) = fl x"
proof -
  let ?e = "expo x"
  let ?m = "rne (x / 2 powi (?e - 52))"
  have f: "fl x = of_int ?m * 2 powi (?e - 52)" using assms by (simp add: fl_def)
  from rne_significand[OF assms] have m: "2 ^ 52 \<le> ?m" "?m \<le> 2 ^ 53" by simp_all
  show ?thesis
  proof (cases "?m = 2 ^ 53")
    case True
    have "fl x = of_int 1 * 2 powi (?e + 1)"
      unfolding f True using powi_split[of 53 "?e - 52"] by (simp add: algebra_simps)
    moreover have "fl (of_int 1 * 2 powi (?e + 1)) = of_int 1 * 2 powi (?e + 1)"
      by (rule fl_exact) simp
    ultimately show ?thesis by simp
  next
    case False
    with m have "\<bar>?m\<bar> < 2 ^ 53" by simp
    from fl_exact[OF this, of "?e - 52"] show ?thesis unfolding f .
  qed
qed

lemma fl_idem: "fl (fl x) = fl x"
proof -
  consider "x = 0" | "0 < x" | "0 < - x" by linarith
  then show ?thesis
  proof cases
    case 1
    then show ?thesis by (simp add: fl_zero)
  next
    case 2
    then show ?thesis by (rule fl_idem_pos)
  next
    case 3
    from fl_idem_pos[OF this] show ?thesis by (simp add: fl_minus)
  qed
qed

text \<open>Bounds pass through a rounded operation when the bound is a double.\<close>

lemma fl_le: "x \<le> d \<Longrightarrow> fl d = d \<Longrightarrow> fl x \<le> d"
  using fl_mono[of x d] by simp

lemma fl_ge: "d \<le> x \<Longrightarrow> fl d = d \<Longrightarrow> d \<le> fl x"
  using fl_mono[of d x] by simp

section \<open>The particle pass\<close>

text \<open>The backward loop with removal is a map followed by a filter: removing a particle
  moves only particles that the loop has already visited.\<close>

lemma updateParticlesLoop_eq:
  "n \<le> length ps \<Longrightarrow>
   updateParticlesLoop n ps =
     filter (\<lambda>p. \<not> deadParticle p) (map stepParticle (take n ps)) @ drop n ps"
proof (induction n arbitrary: ps)
  case 0
  then show ?case by simp
next
  case (Suc n)
  then have lt: "n < length ps" by simp
  let ?p = "stepParticle (ps ! n)"
  show ?case
  proof (cases "deadParticle ?p")
    case True
    have "n \<le> length (splice1 n (ps[n := ?p]))"
      using lt by (simp add: splice1_def)
    from Suc.IH[OF this] True lt show ?thesis
      by (simp add: splice1_def take_Suc_conv_app_nth Let_def)
  next
    case False
    have "n \<le> length (ps[n := ?p])" using lt by simp
    from Suc.IH[OF this] False lt show ?thesis
      by (simp add: take_Suc_conv_app_nth Let_def upd_conv_take_nth_drop)
  qed
qed

lemma particles_updateParticles:
  "particles (updateParticles s) =
     filter (\<lambda>p. \<not> deadParticle p) (map stepParticle (particles s))"
  by (simp add: updateParticles_def updateParticlesLoop_eq)

text \<open>
  C10: after a pass of \<open>updateParticles\<close> the store holds exactly the particles of the
  old store that are alive after their update, each updated once and in the old order,
  whatever was removed beside them; so every particle left has \<open>life > 0\<close> and
  \<open>radius \<ge> 0.5\<close>, and the store has not grown.
\<close>

theorem updateParticles_pass:
  "particles (updateParticles s) =
     filter (\<lambda>p. \<not> deadParticle p) (map stepParticle (particles s))
   \<and> (\<forall>p \<in> set (particles (updateParticles s)). 0 < p_life p \<and> 0.5 \<le> p_radius p)
   \<and> length (particles (updateParticles s)) \<le> length (particles s)"
proof -
  have eq: "particles (updateParticles s) =
      filter (\<lambda>p. \<not> deadParticle p) (map stepParticle (particles s))"
    by (rule particles_updateParticles)
  have "\<forall>p \<in> set (particles (updateParticles s)). 0 < p_life p \<and> 0.5 \<le> p_radius p"
    unfolding eq by (auto simp: deadParticle_def)
  moreover have "length (particles (updateParticles s)) \<le> length (particles s)"
    unfolding eq using length_filter_le[of _ "map stepParticle (particles s)"] by simp
  ultimately show ?thesis using eq by blast
qed

theorem updateParticles_pass_witness:
  "particles (updateParticles (exampleState\<lparr> particles :=
      [exampleParticle\<lparr> p_radius := 0.5 \<rparr>, exampleParticle,
       exampleParticle\<lparr> p_life := 0.02 \<rparr>, exampleParticle\<lparr> p_x := 0 \<rparr>] \<rparr>))
   = [stepParticle exampleParticle, stepParticle (exampleParticle\<lparr> p_x := 0 \<rparr>)]
   \<and> p_life (stepParticle exampleParticle) = 0.98
   \<and> p_radius (stepParticle exampleParticle) = 2.91"
  using updateParticles_pass [of "exampleState\<lparr> particles :=
      [exampleParticle\<lparr> p_radius := 0.5 \<rparr>, exampleParticle,
       exampleParticle\<lparr> p_life := 0.02 \<rparr>, exampleParticle\<lparr> p_x := 0 \<rparr>] \<rparr>"]
  by (simp add: exampleParticle_def deadParticle_def stepParticle_def)


section \<open>The life of a particle\<close>





lemma createExplosion_fresh:
  assumes "\<forall>n. 0 \<le> rand s n \<and> rand s n < 1"
    and "q \<in> set (drop (length (particles s)) (particles (createExplosion x y sz s)))"
  shows "p_life q = 1 \<and> 3 \<le> p_radius q \<and> p_radius q \<le> 8 \<and> fl 0.02 \<le> p_decay q"
proof -
  from assms(2) obtain i where q:
    "p_life q = 1" "p_radius q = fl (3 + fl (random s (5 * i + 3) * 5))"
    "p_decay q = fl (fl 0.02 + fl (random s (5 * i + 4) * fl 0.02))"
    by (auto simp: createExplosion_def Let_def)
  have r: "0 \<le> random s k \<and> random s k < 1" for k
    using assms(1) by (simp add: random_def)
  have "0 \<le> fl (random s (5 * i + 3) * 5)"
    using r[of "5 * i + 3"] by (intro fl_nonneg) simp
  then have lo: "3 \<le> fl (3 + fl (random s (5 * i + 3) * 5))"
    by (intro fl_ge) (simp_all add: fl_numeral)
  have "fl (random s (5 * i + 3) * 5) \<le> 5"
    using r[of "5 * i + 3"] by (intro fl_le) (simp_all add: fl_numeral)
  then have hi: "fl (3 + fl (random s (5 * i + 3) * 5)) \<le> 8"
    by (intro fl_le) (simp_all add: fl_numeral)
  have "0 \<le> fl 0.02" by (intro fl_nonneg) simp
  then have "0 \<le> fl (random s (5 * i + 4) * fl 0.02)"
    using r[of "5 * i + 4"] by (intro fl_nonneg) simp
  then have d: "fl 0.02 \<le> fl (fl 0.02 + fl (random s (5 * i + 4) * fl 0.02))"
    by (intro fl_ge) (simp_all add: fl_idem)
  from lo hi d show ?thesis unfolding q by simp
qed




section \<open>The asteroid pass\<close>

text \<open>The tests of an iteration read the cursor and the canvas only, which the loop does
  not change; so the backward loop with removal is again a map followed by a filter.\<close>

lemma jsnum_NaN:
  "jadd a NaN = NaN" "jsub a NaN = NaN" "jmul a NaN = NaN" "jdiv a NaN = NaN"
  "jless a NaN = False"
  by (cases a; simp)+

lemma cursorHit_NaN: "a_x a = NaN \<or> a_y a = NaN \<Longrightarrow> \<not> cursorHit s a"
  by (cases "a_x a"; cases "a_y a") (auto simp: cursorHit_def Let_def jsnum_NaN)

lemma centerHit_NaN: "a_x a = NaN \<or> a_y a = NaN \<Longrightarrow> \<not> centerHit s a"
  by (cases "a_x a"; cases "a_y a") (auto simp: centerHit_def Let_def jsnum_NaN)

lemma cursorHit_Fin:
  assumes "a_x a = Fin x" "a_y a = Fin y"
  shows "cursorHit s a \<longleftrightarrow>
     detected (fingerPosition s) \<and>
     fl (sqrt (fl (fl (fl (x - f_x (fingerPosition s)) * fl (x - f_x (fingerPosition s)))
                 + fl (fl (y - f_y (fingerPosition s)) * fl (y - f_y (fingerPosition s))))))
       < fl (a_radius a + cursorRadius CONFIG)"
proof -
  have "0 \<le> fl (fl (fl (x - f_x (fingerPosition s)) * fl (x - f_x (fingerPosition s)))
                 + fl (fl (y - f_y (fingerPosition s)) * fl (y - f_y (fingerPosition s))))"
    by (intro fl_nonneg add_nonneg_nonneg) simp_all
  then show ?thesis
    by (simp add: cursorHit_def Let_def assms not_less[symmetric])
qed

lemma centerHit_Fin:
  assumes "a_x a = Fin x" "a_y a = Fin y"
  shows "centerHit s a \<longleftrightarrow>
     fl (sqrt (fl (fl (fl (x - fl (canvasWidth s / 2)) * fl (x - fl (canvasWidth s / 2)))
                 + fl (fl (y - fl (canvasHeight s / 2)) * fl (y - fl (canvasHeight s / 2))))))
       < 50"
proof -
  have "0 \<le> fl (fl (fl (x - fl (canvasWidth s / 2)) * fl (x - fl (canvasWidth s / 2)))
                 + fl (fl (y - fl (canvasHeight s / 2)) * fl (y - fl (canvasHeight s / 2))))"
    by (intro fl_nonneg add_nonneg_nonneg) simp_all
  then show ?thesis
    by (simp add: centerHit_def Let_def assms not_less[symmetric])
qed

lemma asteroidStep_frame:
  "fingerPosition (asteroidStep i s) = fingerPosition s"
  "canvasWidth (asteroidStep i s) = canvasWidth s"
  "canvasHeight (asteroidStep i s) = canvasHeight s"
  "rand (asteroidStep i s) = rand s"
  "dateNow (asteroidStep i s) = dateNow s"
  by (simp_all add: asteroidStep_def Let_def createExplosion_def scoreDestroy_def
        loseLife_def gameOver_def split: jsnum.splits)

lemma cursorHit_asteroidStep: "cursorHit (asteroidStep i s) = cursorHit s"
  by (rule ext) (simp add: cursorHit_def asteroidStep_frame)

lemma centerHit_asteroidStep: "centerHit (asteroidStep i s) = centerHit s"
  by (rule ext) (simp add: centerHit_def asteroidStep_frame)

lemma survives_asteroidStep: "survives (asteroidStep i s) = survives s"
  by (rule ext) (simp add: survives_def cursorHit_asteroidStep centerHit_asteroidStep)

lemma cursorHit_asteroids_update: "cursorHit (s\<lparr> asteroids := xs \<rparr>) a = cursorHit s a"
  by (simp add: cursorHit_def)

lemma centerHit_asteroids_update: "centerHit (s\<lparr> asteroids := xs \<rparr>) a = centerHit s a"
  by (simp add: centerHit_def)

lemma asteroids_asteroidStep:
  assumes "i < length (asteroids s)"
  shows "asteroids (asteroidStep i s) =
           take i (asteroids s)
           @ filter (survives s) [moveAsteroid (asteroids s ! i)]
           @ drop (Suc i) (asteroids s)"
  using assms
  by (simp add: asteroidStep_def Let_def createExplosion_def scoreDestroy_def
        loseLife_def gameOver_def splice1_def survives_def cursorHit_asteroids_update
        centerHit_asteroids_update cursorHit_NaN centerHit_NaN upd_conv_take_nth_drop
        split: jsnum.splits)

lemma take_asteroidStep:
  "i < length (asteroids s) \<Longrightarrow> take i (asteroids (asteroidStep i s)) = take i (asteroids s)"
  by (simp add: asteroids_asteroidStep)

lemma length_asteroidStep:
  "i < length (asteroids s) \<Longrightarrow> i \<le> length (asteroids (asteroidStep i s))"
  by (simp add: asteroids_asteroidStep)

lemma asteroids_updateAsteroidsLoop:
  "n \<le> length (asteroids s) \<Longrightarrow>
   asteroids (updateAsteroidsLoop n s) =
     filter (survives s) (map moveAsteroid (take n (asteroids s))) @ drop n (asteroids s)"
proof (induction n arbitrary: s)
  case 0
  then show ?case by simp
next
  case (Suc n)
  then have lt: "n < length (asteroids s)" by simp
  show ?case
    using Suc.IH[OF length_asteroidStep[OF lt]] lt
    by (simp add: survives_asteroidStep asteroids_asteroidStep take_Suc_conv_app_nth)
qed

lemma asteroids_updateAsteroids:
  "asteroids (updateAsteroids s) =
     filter (survives s) (map moveAsteroid (asteroids s))"
  by (simp add: updateAsteroids_def asteroids_updateAsteroidsLoop)

lemma nowIx_asteroidStep:
  "nowIx (asteroidStep i s) =
     nowIx s + length (filter (cursorHit s) [moveAsteroid (asteroids s ! i)])"
  by (simp add: asteroidStep_def Let_def createExplosion_def scoreDestroy_def
        loseLife_def gameOver_def cursorHit_asteroids_update cursorHit_NaN
        split: jsnum.splits)

lemma nowIx_updateAsteroidsLoop:
  "n \<le> length (asteroids s) \<Longrightarrow>
   nowIx (updateAsteroidsLoop n s) =
     nowIx s + length (filter (cursorHit s) (map moveAsteroid (take n (asteroids s))))"
proof (induction n arbitrary: s)
  case 0
  then show ?case by simp
next
  case (Suc n)
  then have lt: "n < length (asteroids s)" by simp
  show ?case
    using Suc.IH[OF length_asteroidStep[OF lt]] lt
    by (simp add: cursorHit_asteroidStep take_asteroidStep nowIx_asteroidStep
          take_Suc_conv_app_nth)
qed

lemma lives_asteroidStep:
  "lives (asteroidStep i s) =
     lives s - int (length (filter (\<lambda>a. \<not> cursorHit s a \<and> centerHit s a)
                              [moveAsteroid (asteroids s ! i)]))"
  by (simp add: asteroidStep_def Let_def createExplosion_def scoreDestroy_def
        loseLife_def gameOver_def cursorHit_asteroids_update centerHit_asteroids_update
        cursorHit_NaN centerHit_NaN split: jsnum.splits)

lemma updateAsteroidsLoop_invariant:
  assumes "\<And>i t. P t \<Longrightarrow> P (asteroidStep i t)" "P s"
  shows "P (updateAsteroidsLoop n s)"
  using assms(2) by (induction n arbitrary: s) (simp_all add: assms(1))

lemma asteroidStep_destroy:
  assumes "i < length (asteroids s)" "cursorHit s (moveAsteroid (asteroids s ! i))"
  shows "asteroids (asteroidStep i s) = splice1 i (asteroids s)"
    "score (asteroidStep i s) =
       score (scoreDestroy (dateNow s (nowIx s)) (a_radius (asteroids s ! i)) s)"
    "combo (asteroidStep i s) =
       combo (scoreDestroy (dateNow s (nowIx s)) (a_radius (asteroids s ! i)) s)"
    "lastDestroyTime (asteroidStep i s) = dateNow s (nowIx s)"
    "length (particles (asteroidStep i s)) =
       length (particles s)
       + nat \<lfloor>fl (particleCount CONFIG * fl (a_radius (asteroids s ! i) / 30))\<rfloor>"
    "nowIx (asteroidStep i s) = nowIx s + 1"
    "lives (asteroidStep i s) = lives s"
  using assms
  by (auto simp: asteroidStep_def Let_def createExplosion_def scoreDestroy_def
        splice1_def cursorHit_asteroids_update cursorHit_NaN moveAsteroid_def
        upd_conv_take_nth_drop split: jsnum.splits)

lemma asteroidStep_no_destroy:
  assumes "\<not> cursorHit s (moveAsteroid (asteroids s ! i))"
  shows "score (asteroidStep i s) = score s"
    "combo (asteroidStep i s) = combo s"
    "lastDestroyTime (asteroidStep i s) = lastDestroyTime s"
    "particles (asteroidStep i s) = particles s"
    "nowIx (asteroidStep i s) = nowIx s"
  using assms
  by (simp_all add: asteroidStep_def Let_def loseLife_def gameOver_def
        cursorHit_asteroids_update split: jsnum.splits)

lemma updateAsteroids_undetected:
  assumes "\<not> detected (fingerPosition s)"
  shows "score (updateAsteroids s) = score s \<and> particles (updateAsteroids s) = particles s
         \<and> combo (updateAsteroids s) = combo s"
proof -
  let ?P = "\<lambda>t::state. fingerPosition t = fingerPosition s \<and> score t = score s
              \<and> particles t = particles s \<and> combo t = combo s"
  have "?P (updateAsteroidsLoop n s)" for n
  proof (rule updateAsteroidsLoop_invariant[where P = ?P])
    fix i t assume t: "?P t"
    then have "\<not> cursorHit t (moveAsteroid (asteroids t ! i))"
      using assms by (simp add: cursorHit_def)
    from asteroidStep_no_destroy[OF this] t show "?P (asteroidStep i t)"
      by (simp add: asteroidStep_frame)
  qed simp
  then show ?thesis by (simp add: updateAsteroids_def)
qed


text \<open>
  C4 (as the code has it): the cursor test of the simulation step compares two doubles:
  the distance from the asteroid (at its position after the motion of this step) to the
  cursor, computed as \<^verbatim>\<open>Math.sqrt(dx * dx + dy * dy)\<close> with each operation rounded, and the
  rounded sum \<open>radius + 60\<close>. The test holds exactly when the cursor is detected, no
  coordinate of the asteroid is \<^verbatim>\<open>NaN\<close>, and the first double is strictly less than the
  second. An iteration of the loop takes the destroy path (removal, explosion, score, one
  reading of the clock) exactly when the test holds; a pass removes every asteroid for
  which it holds and reads the clock once for each of them; and without a detected cursor
  a pass destroys nothing.
\<close>

theorem cursor_collision:
  "(\<forall>a. cursorHit s a \<longleftrightarrow>
      (detected (fingerPosition s) \<and>
       (\<exists>x y. a_x a = Fin x \<and> a_y a = Fin y \<and>
          fl (sqrt (fl (fl (fl (x - f_x (fingerPosition s)) * fl (x - f_x (fingerPosition s)))
                      + fl (fl (y - f_y (fingerPosition s)) * fl (y - f_y (fingerPosition s))))))
            < fl (a_radius a + 60))))
   \<and> (\<forall>i<length (asteroids s).
        (cursorHit s (moveAsteroid (asteroids s ! i)) \<longrightarrow>
           asteroids (asteroidStep i s) = splice1 i (asteroids s)
           \<and> score (asteroidStep i s) =
               score (scoreDestroy (dateNow s (nowIx s)) (a_radius (asteroids s ! i)) s)
           \<and> length (particles (asteroidStep i s)) =
               length (particles s) + nat \<lfloor>fl (20 * fl (a_radius (asteroids s ! i) / 30))\<rfloor>
           \<and> nowIx (asteroidStep i s) = nowIx s + 1)
        \<and> (\<not> cursorHit s (moveAsteroid (asteroids s ! i)) \<longrightarrow>
             score (asteroidStep i s) = score s
             \<and> combo (asteroidStep i s) = combo s
             \<and> particles (asteroidStep i s) = particles s
             \<and> nowIx (asteroidStep i s) = nowIx s))
   \<and> asteroids (updateAsteroids s) =
        filter (\<lambda>a. \<not> cursorHit s a \<and> \<not> centerHit s a) (map moveAsteroid (asteroids s))
   \<and> nowIx (updateAsteroids s) =
        nowIx s + length (filter (cursorHit s) (map moveAsteroid (asteroids s)))
   \<and> (\<not> detected (fingerPosition s) \<longrightarrow>
        score (updateAsteroids s) = score s \<and> particles (updateAsteroids s) = particles s
        \<and> nowIx (updateAsteroids s) = nowIx s)"
proof -
  have test: "cursorHit s a \<longleftrightarrow>
      (detected (fingerPosition s) \<and>
       (\<exists>x y. a_x a = Fin x \<and> a_y a = Fin y \<and>
          fl (sqrt (fl (fl (fl (x - f_x (fingerPosition s)) * fl (x - f_x (fingerPosition s)))
                      + fl (fl (y - f_y (fingerPosition s)) * fl (y - f_y (fingerPosition s))))))
            < fl (a_radius a + 60)))" for a
  proof (cases "a_x a")
    case NaN
    then show ?thesis using cursorHit_NaN[of a s] by simp
  next
    case x: (Fin x)
    show ?thesis
    proof (cases "a_y a")
      case NaN
      then show ?thesis using cursorHit_NaN[of a s] by simp
    next
      case (Fin y)
      from cursorHit_Fin[OF x Fin, of s] show ?thesis
        by (simp add: x Fin CONFIG_def)
    qed
  qed
  have step: "\<forall>i<length (asteroids s).
        (cursorHit s (moveAsteroid (asteroids s ! i)) \<longrightarrow>
           asteroids (asteroidStep i s) = splice1 i (asteroids s)
           \<and> score (asteroidStep i s) =
               score (scoreDestroy (dateNow s (nowIx s)) (a_radius (asteroids s ! i)) s)
           \<and> length (particles (asteroidStep i s)) =
               length (particles s) + nat \<lfloor>fl (20 * fl (a_radius (asteroids s ! i) / 30))\<rfloor>
           \<and> nowIx (asteroidStep i s) = nowIx s + 1)
        \<and> (\<not> cursorHit s (moveAsteroid (asteroids s ! i)) \<longrightarrow>
             score (asteroidStep i s) = score s
             \<and> combo (asteroidStep i s) = combo s
             \<and> particles (asteroidStep i s) = particles s
             \<and> nowIx (asteroidStep i s) = nowIx s)"
    using asteroidStep_destroy[of _ s] asteroidStep_no_destroy[of s]
    by (simp add: CONFIG_def)
  have pass: "asteroids (updateAsteroids s) =
        filter (\<lambda>a. \<not> cursorHit s a \<and> \<not> centerHit s a) (map moveAsteroid (asteroids s))"
    using asteroids_updateAsteroids[of s] by (simp add: survives_def[abs_def])
  have count: "nowIx (updateAsteroids s) =
        nowIx s + length (filter (cursorHit s) (map moveAsteroid (asteroids s)))"
    by (simp add: updateAsteroids_def nowIx_updateAsteroidsLoop)
  have "\<not> detected (fingerPosition s) \<Longrightarrow>
      length (filter (cursorHit s) (map moveAsteroid (asteroids s))) = 0"
    by (simp add: cursorHit_def)
  with count updateAsteroids_undetected[of s]
  have undet: "\<not> detected (fingerPosition s) \<longrightarrow>
        score (updateAsteroids s) = score s \<and> particles (updateAsteroids s) = particles s
        \<and> nowIx (updateAsteroids s) = nowIx s"
    by (simp del: filter_map)
  from test step pass count undet show ?thesis by blast
qed

lemma sqrt_values:
  "sqrt 8100 = 90" "sqrt 6400 = 80" "sqrt 10000 = 100" "sqrt 2401 = 49" "sqrt 2601 = 51"
  by (rule real_sqrt_unique; simp)+

lemma moveAsteroid_example:
  "\<bar>x\<bar> < 2 ^ 53 \<Longrightarrow> \<bar>y\<bar> < 2 ^ 53 \<Longrightarrow>
   moveAsteroid (exampleAsteroid (of_int x) (of_int y)) = exampleAsteroid (of_int x) (of_int y)"
  by (simp add: moveAsteroid_def exampleAsteroid_def incomingAsteroid_def fl_int fl_zero)

lemma far_from_50: "2500 \<le> x \<Longrightarrow> \<not> fl (sqrt x) < 50"
proof -
  assume "2500 \<le> x"
  then have "50\<^sup>2 \<le> x" by simp
  then have "50 \<le> sqrt x" by (rule real_le_rsqrt)
  then have "50 \<le> fl (sqrt x)" by (rule fl_ge) (simp add: fl_numeral)
  then show ?thesis by simp
qed

lemma exampleCursorState_hits:
  "\<not> cursorHit exampleCursorState (exampleAsteroid 154 172)"
  "cursorHit exampleCursorState (exampleAsteroid 148 164)"
  "\<not> cursorHit exampleCursorState (exampleAsteroid 160 180)"
  "\<not> centerHit exampleCursorState (exampleAsteroid 154 172)"
  "\<not> centerHit exampleCursorState (exampleAsteroid 160 180)"
  by (simp_all add: exampleCursorState_def exampleState_def initialState_def
        exampleAsteroid_def incomingAsteroid_def cursorHit_def centerHit_def Let_def CONFIG_def
        fl_numeral fl_neg_numeral fl_zero sqrt_values far_from_50)

theorem cursor_collision_witness:
  "asteroids (updateAsteroids exampleCursorState) =
     [exampleAsteroid 154 172, exampleAsteroid 160 180]
   \<and> nowIx (updateAsteroids exampleCursorState) = nowIx exampleCursorState + 1
   \<and> cursorHit exampleCursorState (exampleAsteroid 148 164)
   \<and> \<not> cursorHit exampleCursorState (exampleAsteroid 154 172)"
proof -
  have m: "map moveAsteroid (asteroids exampleCursorState) =
      [exampleAsteroid 154 172, exampleAsteroid 148 164, exampleAsteroid 160 180]"
    using moveAsteroid_example[of 154 172] moveAsteroid_example[of 148 164]
      moveAsteroid_example[of 160 180]
    by (simp add: exampleCursorState_def)
  from cursor_collision [of exampleCursorState]
  have p: "asteroids (updateAsteroids exampleCursorState) =
      filter (\<lambda>a. \<not> cursorHit exampleCursorState a \<and> \<not> centerHit exampleCursorState a)
        (map moveAsteroid (asteroids exampleCursorState))"
    and c: "nowIx (updateAsteroids exampleCursorState) =
      nowIx exampleCursorState
      + length (filter (cursorHit exampleCursorState)
          (map moveAsteroid (asteroids exampleCursorState)))"
    by blast+
  show ?thesis
    unfolding p c m by (simp add: exampleCursorState_hits)
qed

lemma fl_boundary_values:
  "fl (1 / 2 ^ 53 * 30) = 30 / 2 ^ 53"
  "fl (30 + 30 / 2 ^ 53) = 30 + 1 / 2 ^ 48"
  "fl (30 + 1 / 2 ^ 48 + 60) = 90"
proof -
  show "fl (1 / 2 ^ 53 * 30) = 30 / 2 ^ 53"
    by (subst fl_eval_neg[of 49]) (simp_all add: rne_def)
  show "fl (30 + 30 / 2 ^ 53) = 30 + 1 / 2 ^ 48"
    by (subst fl_eval_pos[of 4]) (simp_all add: rne_def)
  show "fl (30 + 1 / 2 ^ 48 + 60) = 90"
    by (subst fl_eval_pos[of 6]) (simp_all add: rne_def)
qed

text \<open>The claim C4 fails on the doubles of the code: an asteroid with the radius that
  \<open>spawnAsteroid\<close> gives for \<^verbatim>\<open>Math.random() = 1 / 2 ^ 53\<close>, at the distance 90 from the
  cursor, is nearer than \<open>radius + 60\<close>, and the step keeps it, since \<open>radius + 60\<close>
  rounds to 90.\<close>

theorem cursor_boundary_counterexample:
  "fl (30 + fl (1 / 2 ^ 53 * 30)) = a_radius boundaryAsteroid
   \<and> a_x boundaryAsteroid = Fin 154 \<and> a_y boundaryAsteroid = Fin 172
   \<and> moveAsteroid boundaryAsteroid = boundaryAsteroid
   \<and> detected (fingerPosition exampleBoundaryState)
   \<and> sqrt ((154 - f_x (fingerPosition exampleBoundaryState))\<^sup>2
           + (172 - f_y (fingerPosition exampleBoundaryState))\<^sup>2)
       < a_radius boundaryAsteroid + 60
   \<and> \<not> cursorHit exampleBoundaryState boundaryAsteroid
   \<and> asteroids (updateAsteroids exampleBoundaryState) = [boundaryAsteroid]"
proof -
  have r: "fl (30 + fl (1 / 2 ^ 53 * 30)) = a_radius boundaryAsteroid"
    by (simp only: fl_boundary_values) (simp add: boundaryAsteroid_def)
  have xy: "a_x boundaryAsteroid = Fin 154 \<and> a_y boundaryAsteroid = Fin 172"
    by (simp add: boundaryAsteroid_def exampleAsteroid_def incomingAsteroid_def)
  have m: "moveAsteroid boundaryAsteroid = boundaryAsteroid"
    by (simp add: moveAsteroid_def boundaryAsteroid_def exampleAsteroid_def
          incomingAsteroid_def fl_numeral fl_zero)
  have d: "detected (fingerPosition exampleBoundaryState)
      \<and> sqrt ((154 - f_x (fingerPosition exampleBoundaryState))\<^sup>2
           + (172 - f_y (fingerPosition exampleBoundaryState))\<^sup>2)
       < a_radius boundaryAsteroid + 60"
    by (simp add: exampleBoundaryState_def boundaryAsteroid_def sqrt_values)
  have "fl (a_radius boundaryAsteroid + cursorRadius CONFIG) = 90"
    using fl_boundary_values(3) by (simp add: boundaryAsteroid_def CONFIG_def)
  then have c: "\<not> cursorHit exampleBoundaryState boundaryAsteroid"
    by (simp add: cursorHit_def Let_def xy)
       (simp add: exampleBoundaryState_def fl_numeral sqrt_values)
  have e: "\<not> centerHit exampleBoundaryState boundaryAsteroid"
    by (simp add: centerHit_def Let_def xy)
       (simp add: exampleBoundaryState_def exampleState_def initialState_def fl_numeral
          fl_neg_numeral far_from_50)
  have a: "asteroids exampleBoundaryState = [boundaryAsteroid]"
    by (simp add: exampleBoundaryState_def)
  have "survives exampleBoundaryState boundaryAsteroid"
    using c e by (simp add: survives_def)
  then have "asteroids (updateAsteroids exampleBoundaryState) = [boundaryAsteroid]"
    by (simp add: asteroids_updateAsteroids a m)
  with r xy m d c show ?thesis by blast
qed

section \<open>Combo and score\<close>

lemma points_values:
  "Math_round (fl (fl (10 * 1) * fl (30 / 30))) = 10"
  "Math_round (fl (fl (10 * 2) * fl (30 / 30))) = 20"
  "Math_round (fl (fl (10 * real_of_int 5) * fl (34.5 / 30))) = 57"
  "Math_round (10 * 5 * (34.5 / 30)) = 58"
proof -
  show "Math_round (fl (fl (10 * 1) * fl (30 / 30))) = 10"
    by (simp add: fl_numeral fl_one Math_round_def)
  show "Math_round (fl (fl (10 * 2) * fl (30 / 30))) = 20"
    by (simp add: fl_numeral fl_one Math_round_def)
  have a: "fl (10 * real_of_int 5) = 50"
    by (simp add: fl_numeral)
  have q: "fl (34.5 / 30) = 5179139571476070 / 2 ^ 52"
    by (subst fl_eval_pos[of 0]) (simp_all add: rne_def)
  have p: "fl (50 * (5179139571476070 / 2 ^ 52)) = 8092405580431359 / 2 ^ 47"
    by (subst fl_eval_pos[of 5]) (simp_all add: rne_def)
  show "Math_round (fl (fl (10 * real_of_int 5) * fl (34.5 / 30))) = 57"
    unfolding a q p Math_round_def by simp
  show "Math_round (10 * 5 * (34.5 / 30)) = 58"
    by (simp add: Math_round_def)
qed

text \<open>
  C3 (as the code has it): a destroyed asteroid of radius \<open>r\<close> raises the combo by one,
  up to 10, when the clock is less than 2000 ms past the last destroy, and sets it to 1
  otherwise; it stores the clock as the time of the last destroy and adds
  \<open>round (10 * combo * (r / 30))\<close> to the score, where the quotient and the two products
  are rounded to doubles before \<^verbatim>\<open>Math.round\<close> (radius 34.5 at combo 5 gives 57 points, the
  exact product 57.5 would give 58). In a fresh session, where the time of the last
  destroy is 0, three destroys of radius 30 at the clock values \<open>t0\<close>, \<open>t0 + 500\<close> and
  \<open>t0 + 3000\<close> (\<open>t0 \<ge> 2000\<close>, as every value of \<^verbatim>\<open>Date.now()\<close> is) give the combos 1, 2,
  1 and the score \<open>10 + 20 + 10 = 40\<close>.
\<close>

theorem combo_rule:
  "combo (scoreDestroy now r s) =
     (if fl (now - lastDestroyTime s) < 2000 then min 10 (combo s + 1) else 1)
   \<and> lastDestroyTime (scoreDestroy now r s) = now
   \<and> score (scoreDestroy now r s) =
       score s + Math_round (fl (fl (10 * real_of_int (combo (scoreDestroy now r s)))
                                 * fl (r / 30)))
   \<and> (i < length (asteroids s) \<and> cursorHit s (moveAsteroid (asteroids s ! i)) \<longrightarrow>
        combo (asteroidStep i s) =
          combo (scoreDestroy (dateNow s (nowIx s)) (a_radius (asteroids s ! i)) s)
        \<and> lastDestroyTime (asteroidStep i s) = dateNow s (nowIx s)
        \<and> score (asteroidStep i s) =
          score (scoreDestroy (dateNow s (nowIx s)) (a_radius (asteroids s ! i)) s))
   \<and> (combo s = 4 \<and> fl (now - lastDestroyTime s) < 2000 \<longrightarrow>
        combo (scoreDestroy now 34.5 s) = 5
        \<and> score (scoreDestroy now 34.5 s) = score s + 57)
   \<and> (lastDestroyTime s = 0 \<and> score s = 0 \<and> 2000 \<le> t0 \<longrightarrow>
        combo (scoreDestroy t0 30 s) = 1
        \<and> combo (scoreDestroy (t0 + 500) 30 (scoreDestroy t0 30 s)) = 2
        \<and> combo (scoreDestroy (t0 + 3000) 30
             (scoreDestroy (t0 + 500) 30 (scoreDestroy t0 30 s))) = 1
        \<and> score (scoreDestroy (t0 + 3000) 30
             (scoreDestroy (t0 + 500) 30 (scoreDestroy t0 30 s))) = 40)"
proof -
  have rule: "combo (scoreDestroy now q s) =
       (if fl (now - lastDestroyTime s) < 2000 then min 10 (combo s + 1) else 1)
     \<and> lastDestroyTime (scoreDestroy now q s) = now
     \<and> score (scoreDestroy now q s) =
         score s + Math_round (fl (fl (10 * real_of_int (combo (scoreDestroy now q s)))
                                   * fl (q / 30)))" for q
    by (simp add: scoreDestroy_def Let_def CONFIG_def)
  have loop: "i < length (asteroids s) \<and> cursorHit s (moveAsteroid (asteroids s ! i)) \<longrightarrow>
        combo (asteroidStep i s) =
          combo (scoreDestroy (dateNow s (nowIx s)) (a_radius (asteroids s ! i)) s)
        \<and> lastDestroyTime (asteroidStep i s) = dateNow s (nowIx s)
        \<and> score (asteroidStep i s) =
          score (scoreDestroy (dateNow s (nowIx s)) (a_radius (asteroids s ! i)) s)"
    using asteroidStep_destroy[of i s] by simp
  have ex: "combo (scoreDestroy now 34.5 s) = 5
        \<and> score (scoreDestroy now 34.5 s) = score s + 57"
    if c: "combo s = 4" "fl (now - lastDestroyTime s) < 2000"
  proof -
    have c5: "combo (scoreDestroy now 34.5 s) = 5"
      using c by (simp add: scoreDestroy_def Let_def CONFIG_def)
    from rule[of "34.5"]
    have "score (scoreDestroy now 34.5 s) =
        score s + Math_round (fl (fl (10 * real_of_int (combo (scoreDestroy now 34.5 s)))
                                  * fl (34.5 / 30)))"
      by blast
    then have "score (scoreDestroy now 34.5 s) = score s + 57"
      unfolding c5 points_values(3) .
    with c5 show ?thesis by blast
  qed
  have seq: "combo (scoreDestroy t0 30 s) = 1
        \<and> combo (scoreDestroy (t0 + 500) 30 (scoreDestroy t0 30 s)) = 2
        \<and> combo (scoreDestroy (t0 + 3000) 30
             (scoreDestroy (t0 + 500) 30 (scoreDestroy t0 30 s))) = 1
        \<and> score (scoreDestroy (t0 + 3000) 30
             (scoreDestroy (t0 + 500) 30 (scoreDestroy t0 30 s))) = 40"
    if f: "lastDestroyTime s = 0" "score s = 0" and t: "2000 \<le> t0"
  proof -
    have "2000 \<le> fl t0" using t by (rule fl_ge) (simp add: fl_numeral)
    then have a: "\<not> fl (t0 - lastDestroyTime s) < 2000" using f(1) by simp
    have b: "fl (t0 + 500 - t0) < 2000" "\<not> fl (t0 + 3000 - (t0 + 500)) < 2000"
      by (simp_all add: fl_numeral)
    show ?thesis
      using a b f(2) points_values(1,2)
      by (simp add: scoreDestroy_def Let_def CONFIG_def)
  qed
  from rule[of r] loop ex seq show ?thesis by blast
qed

theorem combo_rule_witness:
  "combo (scoreDestroy 1000000 30 exampleFreshSession) = 1
   \<and> combo (scoreDestroy (1000000 + 500) 30 (scoreDestroy 1000000 30 exampleFreshSession)) = 2
   \<and> combo (scoreDestroy (1000000 + 3000) 30
        (scoreDestroy (1000000 + 500) 30 (scoreDestroy 1000000 30 exampleFreshSession))) = 1
   \<and> score (scoreDestroy (1000000 + 3000) 30
        (scoreDestroy (1000000 + 500) 30 (scoreDestroy 1000000 30 exampleFreshSession))) = 40
   \<and> score (scoreDestroy 1000500 34.5 (exampleFreshSession\<lparr> combo := 4,
        lastDestroyTime := 1000000 \<rparr>)) = 57"
proof -
  have f: "lastDestroyTime exampleFreshSession = 0 \<and> score exampleFreshSession = 0
        \<and> (2000::real) \<le> 1000000"
    by (simp add: exampleFreshSession_def startGame_def exampleState_def initialState_def)
  let ?s = "exampleFreshSession\<lparr> combo := 4, lastDestroyTime := 1000000 \<rparr>"
  have g: "combo ?s = 4 \<and> fl (1000500 - lastDestroyTime ?s) < 2000"
    by (simp add: fl_numeral)
  have z: "score ?s = 0"
    by (simp add: exampleFreshSession_def startGame_def)
  from combo_rule[of _ _ ?s, where now = 1000500] g
  have "score (scoreDestroy 1000500 34.5 ?s) = score ?s + 57" by blast
  with z have "score (scoreDestroy 1000500 34.5 ?s) = 57" by simp
  with combo_rule[of _ _ exampleFreshSession _ 1000000] f show ?thesis by blast
qed

text \<open>The three destroys of C3 give the combos 1, 2, 1, and a score that is not 50.\<close>

theorem combo_score_counterexample:
  "combo (scoreDestroy 1000000 30 exampleFreshSession) = 1
   \<and> combo (scoreDestroy 1000500 30 (scoreDestroy 1000000 30 exampleFreshSession)) = 2
   \<and> combo (scoreDestroy 1003000 30
        (scoreDestroy 1000500 30 (scoreDestroy 1000000 30 exampleFreshSession))) = 1
   \<and> score (scoreDestroy 1003000 30
        (scoreDestroy 1000500 30 (scoreDestroy 1000000 30 exampleFreshSession))) \<noteq> 50"
  using points_values(1,2)
  by (simp add: exampleFreshSession_def startGame_def exampleState_def initialState_def
        scoreDestroy_def Let_def CONFIG_def fl_numeral)

section \<open>Lives and game over\<close>

lemma lives_updateAsteroidsLoop:
  "n \<le> length (asteroids s) \<Longrightarrow>
   lives (updateAsteroidsLoop n s) =
     lives s - int (length (filter (\<lambda>a. \<not> cursorHit s a \<and> centerHit s a)
                              (map moveAsteroid (take n (asteroids s)))))"
proof (induction n arbitrary: s)
  case 0
  then show ?case by simp
next
  case (Suc n)
  then have lt: "n < length (asteroids s)" by simp
  show ?case
    using Suc.IH[OF length_asteroidStep[OF lt]] lt
    by (simp add: cursorHit_asteroidStep centerHit_asteroidStep take_asteroidStep
          lives_asteroidStep take_Suc_conv_app_nth)
qed

lemma lives_updateAsteroids:
  "lives (updateAsteroids s) =
     lives s - int (length (filter (\<lambda>a. \<not> cursorHit s a \<and> centerHit s a)
                              (map moveAsteroid (asteroids s))))"
  by (simp add: updateAsteroids_def lives_updateAsteroidsLoop)

text \<open>A pass of \<open>updateAsteroids\<close> goes on after the game is over: with three lives and
  four asteroids that enter the centre zone in the same step it handles four impacts.\<close>

theorem fourth_impact_counterexample:
  "isPlaying exampleImpactState \<and> lives exampleImpactState = 3
   \<and> list_all wellShaped (asteroids exampleImpactState)
   \<and> list_all (\<lambda>a. \<not> centerHit exampleImpactState a) (asteroids exampleImpactState)
   \<and> lives (updateAsteroids exampleImpactState) = - 1
   \<and> \<not> isPlaying (updateAsteroids exampleImpactState)"
proof -
  have "\<not> isPlaying (updateAsteroids exampleImpactState)"
    by (simp add: exampleImpactState_def exampleState_def initialState_def updateAsteroids_def
          numeral_eq_Suc asteroidStep_def moveAsteroid_def cursorHit_def centerHit_def
          loseLife_def gameOver_def splice1_def CONFIG_def Let_def incomingAsteroid_def
          fl_numeral fl_neg_numeral fl_zero sqrt_values)
  moreover have "lives (updateAsteroids exampleImpactState) = - 1"
    by (simp add: lives_updateAsteroids)
       (simp add: exampleImpactState_def exampleState_def initialState_def
          moveAsteroid_def cursorHit_def centerHit_def CONFIG_def Let_def incomingAsteroid_def
          fl_numeral fl_neg_numeral fl_zero sqrt_values)
  moreover have "list_all wellShaped (asteroids exampleImpactState)"
    using fl_pos[of "0.025"]
    by (simp add: exampleImpactState_def wellShaped_def exampleShape_def incomingAsteroid_def
          list_all_iff fl_0_7 fl_0_025)
  moreover have "isPlaying exampleImpactState \<and> lives exampleImpactState = 3
      \<and> list_all (\<lambda>a. \<not> centerHit exampleImpactState a) (asteroids exampleImpactState)"
    by (simp add: exampleImpactState_def exampleState_def initialState_def
          centerHit_def CONFIG_def Let_def incomingAsteroid_def
          fl_numeral fl_neg_numeral fl_zero sqrt_values)
  ultimately show ?thesis by blast
qed

lemma gameLoop_not_playing: "\<not> isPlaying s \<Longrightarrow> gameLoop t s = s"
  by (simp add: gameLoop_def)

lemma onHandResults_session:
  assumes "onHandResults r s = Inr s'"
  shows "lives s' = lives s" "isPlaying s' = isPlaying s" "asteroids s' = asteroids s"
    "score s' = score s" "highScore s' = highScore s" "localStorage s' = localStorage s"
  using assms
  by (auto simp: onHandResults_def Let_def split: option.splits list.splits if_splits)

lemma handle_stopped:
  assumes "\<not> isPlaying s" "\<not> isStart e"
  shows "lives (handle e s) = lives s \<and> \<not> isPlaying (handle e s)
         \<and> asteroids (handle e s) = asteroids s \<and> score (handle e s) = score s"
proof (cases e)
  case (StartGame b t)
  with assms(2) show ?thesis by simp
next
  case (GameLoop t)
  with assms(1) show ?thesis by (simp add: gameLoop_not_playing)
next
  case (HandResults r)
  with assms(1) show ?thesis
    by (cases "onHandResults r s") (simp_all add: onHandResults_session)
qed

lemma run_stopped:
  assumes "\<not> isPlaying s" "\<forall>e \<in> set es. \<not> isStart e"
  shows "lives (run es s) = lives s \<and> \<not> isPlaying (run es s)
         \<and> asteroids (run es s) = asteroids s \<and> score (run es s) = score s"
  using assms
proof (induction es arbitrary: s)
  case Nil
  then show ?case by (simp add: run_def)
next
  case (Cons e es)
  from Cons.prems have e: "\<not> isStart e" and es: "\<forall>e \<in> set es. \<not> isStart e" by simp_all
  note h = handle_stopped[OF Cons.prems(1) e]
  from h have "\<not> isPlaying (handle e s)" by simp
  from Cons.IH[OF this es] h show ?case by (simp add: run_def)
qed

lemma asteroidStep_impact:
  assumes "\<not> cursorHit s (moveAsteroid (asteroids s ! i))"
    "centerHit s (moveAsteroid (asteroids s ! i))"
  shows "lives (asteroidStep i s) = lives (loseLife s)"
    "isPlaying (asteroidStep i s) = isPlaying (loseLife s)"
proof -
  obtain x y where xy: "a_x (moveAsteroid (asteroids s ! i)) = Fin x"
      "a_y (moveAsteroid (asteroids s ! i)) = Fin y"
    using assms(2) centerHit_NaN[of "moveAsteroid (asteroids s ! i)" s]
    by (cases "a_x (moveAsteroid (asteroids s ! i))";
        cases "a_y (moveAsteroid (asteroids s ! i))") auto
  show "lives (asteroidStep i s) = lives (loseLife s)"
    "isPlaying (asteroidStep i s) = isPlaying (loseLife s)"
    using assms
    by (simp_all add: asteroidStep_def Let_def xy loseLife_def gameOver_def
          cursorHit_asteroids_update centerHit_asteroids_update)
qed

text \<open>
  C2 (as the code has it): an asteroid that reaches the centre zone costs a life through
  \<open>loseLife\<close>. With three lives the first two impacts leave the session playing and the
  third ends it (\<open>isPlaying\<close> becomes false, with no life left). Once the session is not
  playing, a frame of the game loop returns the state as it is, and no sequence of frames
  and tracker results changes the lives or the asteroids: no impact is handled in a later
  simulation step, until the game is started again.
\<close>

theorem impacts_until_game_over:
  "(\<not> cursorHit s (moveAsteroid (asteroids s ! i))
      \<and> centerHit s (moveAsteroid (asteroids s ! i)) \<longrightarrow>
      lives (asteroidStep i s) = lives (loseLife s)
      \<and> isPlaying (asteroidStep i s) = isPlaying (loseLife s))
   \<and> (lives s = 3 \<and> isPlaying s \<longrightarrow>
        lives (loseLife s) = 2 \<and> isPlaying (loseLife s)
        \<and> lives (loseLife (loseLife s)) = 1 \<and> isPlaying (loseLife (loseLife s))
        \<and> lives (loseLife (loseLife (loseLife s))) = 0
        \<and> \<not> isPlaying (loseLife (loseLife (loseLife s))))
   \<and> (\<not> isPlaying s \<longrightarrow> gameLoop t s = s)
   \<and> (\<not> isPlaying s \<and> (\<forall>e \<in> set es. \<not> isStart e) \<longrightarrow>
        lives (run es s) = lives s \<and> \<not> isPlaying (run es s)
        \<and> asteroids (run es s) = asteroids s)"
proof -
  have a: "\<not> cursorHit s (moveAsteroid (asteroids s ! i))
      \<and> centerHit s (moveAsteroid (asteroids s ! i)) \<longrightarrow>
      lives (asteroidStep i s) = lives (loseLife s)
      \<and> isPlaying (asteroidStep i s) = isPlaying (loseLife s)"
    using asteroidStep_impact[of s i] by simp
  have b: "lives s = 3 \<and> isPlaying s \<longrightarrow>
        lives (loseLife s) = 2 \<and> isPlaying (loseLife s)
        \<and> lives (loseLife (loseLife s)) = 1 \<and> isPlaying (loseLife (loseLife s))
        \<and> lives (loseLife (loseLife (loseLife s))) = 0
        \<and> \<not> isPlaying (loseLife (loseLife (loseLife s)))"
    by (simp add: loseLife_def gameOver_def Let_def)
  have c: "\<not> isPlaying s \<longrightarrow> gameLoop t s = s"
    by (simp add: gameLoop_not_playing)
  have d: "\<not> isPlaying s \<and> (\<forall>e \<in> set es. \<not> isStart e) \<longrightarrow>
        lives (run es s) = lives s \<and> \<not> isPlaying (run es s)
        \<and> asteroids (run es s) = asteroids s"
    using run_stopped[of s es] by simp
  from a b c d show ?thesis by blast
qed

theorem impacts_until_game_over_witness:
  "lives (loseLife (loseLife (loseLife exampleStartedState))) = 0
   \<and> \<not> isPlaying (loseLife (loseLife (loseLife exampleStartedState)))
   \<and> gameLoop 5000 (loseLife (loseLife (loseLife exampleStartedState)))
       = loseLife (loseLife (loseLife exampleStartedState))
   \<and> lives (run [GameLoop 5000, HandResults None, GameLoop 5016]
               (loseLife (loseLife (loseLife exampleStartedState)))) = 0"
proof -
  have s: "lives exampleStartedState = 3 \<and> isPlaying exampleStartedState"
    by (simp add: exampleStartedState_def exampleState_def initialState_def CONFIG_def)
  have e: "\<forall>e \<in> set [GameLoop 5000, HandResults None, GameLoop 5016]. \<not> isStart e"
    by simp
  note t = impacts_until_game_over
  from t[of exampleStartedState] s
  have stop: "lives (loseLife (loseLife (loseLife exampleStartedState))) = 0
      \<and> \<not> isPlaying (loseLife (loseLife (loseLife exampleStartedState)))"
    by blast
  with t[of "loseLife (loseLife (loseLife exampleStartedState))" _ 5000
         "[GameLoop 5000, HandResults None, GameLoop 5016]"] e
  show ?thesis by simp
qed


section \<open>High score\<close>

lemma hsKept_refl: "hsKept s s"
  by (simp add: hsKept_def)

lemma hsKept_trans: "hsKept s t \<Longrightarrow> hsKept t u \<Longrightarrow> hsKept s u"
  by (auto simp: hsKept_def)

lemma hsKept_fields:
  "highScore t = highScore s \<Longrightarrow> localStorage t = localStorage s \<Longrightarrow> hsKept s t"
  by (simp add: hsKept_def)

lemma hsKept_gameOver: "hsKept s (gameOver s)"
  by (simp add: hsKept_def gameOver_def Let_def loadHighScore_def)

lemma hsKept_asteroidStep: "hsKept s (asteroidStep i s)"
  by (simp add: hsKept_def asteroidStep_def Let_def createExplosion_def scoreDestroy_def
        loseLife_def gameOver_def loadHighScore_def split: jsnum.splits)

lemma hsKept_updateAsteroids: "hsKept s (updateAsteroids s)"
proof -
  have "hsKept s (updateAsteroidsLoop n s)" for n
  proof (rule updateAsteroidsLoop_invariant[where P = "hsKept s"])
    fix i t assume "hsKept s t"
    then show "hsKept s (asteroidStep i t)"
      using hsKept_asteroidStep[of t i] by (rule hsKept_trans)
  qed (rule hsKept_refl)
  then show ?thesis by (simp add: updateAsteroids_def)
qed

lemma spawnAsteroid_session:
  "highScore (spawnAsteroid s) = highScore s"
  "localStorage (spawnAsteroid s) = localStorage s"
  by (simp_all add: spawnAsteroid_def Let_def split: prod.splits)

lemma hsKept_gameLoop: "hsKept s (gameLoop t s)"
proof (cases "isPlaying s")
  case False
  then show ?thesis by (simp add: gameLoop_def hsKept_refl)
next
  case True
  define s1 where "s1 = s\<lparr> lastFrameTime := t,
                              gameTime := fl (gameTime s + fl (t - lastFrameTime s)) \<rparr>"
  define s2 where "s2 = (if fl (t - lastSpawnTime s1) > spawnInterval (gameTime s1)
                  then (spawnAsteroid s1)\<lparr> lastSpawnTime := t \<rparr> else s1)"
  have "hsKept s s2"
    by (rule hsKept_fields) (simp_all add: s2_def s1_def spawnAsteroid_session)
  from this hsKept_updateAsteroids[of s2] have a: "hsKept s (updateAsteroids s2)"
    by (rule hsKept_trans)
  have "hsKept (updateAsteroids s2) (gameLoop t s)"
    by (rule hsKept_fields)
       (simp_all add: gameLoop_def True Let_def s2_def s1_def render_def updateParticles_def)
  with a show ?thesis by (rule hsKept_trans)
qed

lemma hsKept_handle: "hsKept s (handle e s)"
proof (cases e)
  case (StartGame b t)
  then show ?thesis by (simp add: hsKept_def startGame_def)
next
  case (GameLoop t)
  then show ?thesis by (simp add: hsKept_gameLoop)
next
  case (HandResults r)
  then show ?thesis
    by (cases "onHandResults r s") (simp_all add: hsKept_refl hsKept_fields onHandResults_session)
qed

lemma hsKept_run: "hsKept s (run es s)"
proof (induction es arbitrary: s)
  case Nil
  then show ?case by (simp add: run_def hsKept_refl)
next
  case (Cons e es)
  have "hsKept (handle e s) (run es (handle e s))" by (rule Cons.IH)
  with hsKept_handle[of s e] have "hsKept s (run es (handle e s))" by (rule hsKept_trans)
  then show ?case by (simp add: run_def)
qed

lemma gameOverWith_low:
  assumes "\<forall>sc \<in> set scs. sc \<le> highScore s"
  shows "highScore (fold gameOverWith scs s) = highScore s
         \<and> localStorage (fold gameOverWith scs s) = localStorage s"
  using assms
proof (induction scs arbitrary: s)
  case Nil
  then show ?case by simp
next
  case (Cons sc scs)
  then have h: "highScore (gameOverWith sc s) = highScore s"
      "localStorage (gameOverWith sc s) = localStorage s"
    by (simp_all add: gameOverWith_def gameOver_def Let_def)
  with Cons.prems have "\<forall>x \<in> set scs. x \<le> highScore (gameOverWith sc s)" by simp
  from Cons.IH[OF this] h show ?case by simp
qed

lemma gameOverWith_mono: "highScore s \<le> highScore (fold gameOverWith scs s)"
proof (induction scs arbitrary: s)
  case Nil
  then show ?case by simp
next
  case (Cons sc scs)
  have "highScore s \<le> highScore (gameOverWith sc s)"
    by (simp add: gameOverWith_def gameOver_def Let_def)
  also have "\<dots> \<le> highScore (fold gameOverWith scs (gameOverWith sc s))" by (rule Cons.IH)
  finally show ?case by simp
qed

text \<open>
  C5: \<open>gameOver\<close> writes the high score, in the state and in the store, only when the
  score of the session is strictly greater than it, and a second \<open>gameOver\<close> changes
  nothing. The high score never goes down, over any sequence of game overs with any scores
  and over any sequence of events of the game; game overs with scores that are not greater
  than it leave both the high score and the stored value as they are; and the stored value
  stays equal to the high score once it is (as it is at page load).
\<close>

theorem highScore_monotone:
  "highScore (gameOver s) = (if score s > highScore s then score s else highScore s)
   \<and> localStorage (gameOver s) =
       (if score s > highScore s then Some (score s) else localStorage s)
   \<and> highScore s \<le> highScore (gameOver s)
   \<and> gameOver (gameOver s) = gameOver s
   \<and> highScore s \<le> highScore (fold gameOverWith scs s)
   \<and> ((\<forall>sc \<in> set scs. sc \<le> highScore s) \<longrightarrow>
        highScore (fold gameOverWith scs s) = highScore s
        \<and> localStorage (fold gameOverWith scs s) = localStorage s)
   \<and> highScore s \<le> highScore (run es s)
   \<and> (loadHighScore (localStorage s) = highScore s \<longrightarrow>
        loadHighScore (localStorage (run es s)) = highScore (run es s))"
proof -
  have a: "highScore (gameOver s) = (if score s > highScore s then score s else highScore s)
      \<and> localStorage (gameOver s) =
          (if score s > highScore s then Some (score s) else localStorage s)
      \<and> highScore s \<le> highScore (gameOver s)
      \<and> gameOver (gameOver s) = gameOver s"
    by (simp add: gameOver_def Let_def)
  have b: "(\<forall>sc \<in> set scs. sc \<le> highScore s) \<longrightarrow>
        highScore (fold gameOverWith scs s) = highScore s
        \<and> localStorage (fold gameOverWith scs s) = localStorage s"
    using gameOverWith_low[of scs s] by blast
  have c: "highScore s \<le> highScore (run es s)
      \<and> (loadHighScore (localStorage s) = highScore s \<longrightarrow>
        loadHighScore (localStorage (run es s)) = highScore (run es s))"
    using hsKept_run[of s es] by (simp add: hsKept_def)
  from a b c gameOverWith_mono[of s scs] show ?thesis by blast
qed

theorem highScore_monotone_witness:
  "highScore (gameOver exampleHighScoreState) = 250
   \<and> localStorage (gameOver exampleHighScoreState) = Some 250
   \<and> highScore (fold gameOverWith [100, 250, 0] (gameOver exampleHighScoreState)) = 250
   \<and> localStorage (fold gameOverWith [100, 250, 0] (gameOver exampleHighScoreState)) = Some 250
   \<and> loadHighScore (localStorage (run [StartGame True 0, GameLoop 16] exampleHighScoreState))
       = highScore (run [StartGame True 0, GameLoop 16] exampleHighScoreState)"
proof -
  have g: "highScore (gameOver exampleHighScoreState) = 250
      \<and> localStorage (gameOver exampleHighScoreState) = Some 250"
    using highScore_monotone[of exampleHighScoreState]
    by (simp add: exampleHighScoreState_def initialState_def)
  then have low: "\<forall>sc \<in> set [100, 250, 0]. sc \<le> highScore (gameOver exampleHighScoreState)"
    by simp
  have cons: "loadHighScore (localStorage exampleHighScoreState) = highScore exampleHighScoreState"
    by (simp add: exampleHighScoreState_def initialState_def loadHighScore_def)
  from highScore_monotone[of "gameOver exampleHighScoreState" "[100, 250, 0]"] low g
  have "highScore (fold gameOverWith [100, 250, 0] (gameOver exampleHighScoreState)) = 250
      \<and> localStorage (fold gameOverWith [100, 250, 0] (gameOver exampleHighScoreState)) = Some 250"
    by simp
  moreover from highScore_monotone[of exampleHighScoreState _ "[StartGame True 0, GameLoop 16]"] cons
  have "loadHighScore (localStorage (run [StartGame True 0, GameLoop 16] exampleHighScoreState))
       = highScore (run [StartGame True 0, GameLoop 16] exampleHighScoreState)"
    by blast
  ultimately show ?thesis using g by blast
qed


section \<open>Starting a session\<close>

lemma startGame_resets:
  "isPlaying (startGame True t s) \<and> score (startGame True t s) = 0
   \<and> lives (startGame True t s) = 3 \<and> combo (startGame True t s) = 1
   \<and> asteroids (startGame True t s) = [] \<and> particles (startGame True t s) = []
   \<and> gameTime (startGame True t s) = 0 \<and> lastSpawnTime (startGame True t s) = 0
   \<and> fingerPosition (startGame True t s) = \<lparr> f_x = 0, f_y = 0, detected = False \<rparr>
   \<and> positionHistory (startGame True t s) = []
   \<and> lastFrameTime (startGame True t s) = t"
  by (simp add: startGame_def CONFIG_def)

lemma startGame_keeps:
  "lastDestroyTime (startGame b t s) = lastDestroyTime s
   \<and> screenShake (startGame b t s) = screenShake s
   \<and> highScore (startGame b t s) = highScore s"
  by (simp add: startGame_def)

text \<open>
  C1: \<open>startGame\<close> resets the score, the lives, the combo, the asteroids, the particles,
  the game time, the time of the last spawn, the cursor and the trail
  (\<open>startGame_resets\<close>), but not the time of the last destroy: a session started after one
  whose last destroy was at 1700000005000 still holds that time, and its first destroy,
  one second later, gets the combo 2 and 20 points.
\<close>

theorem startGame_keeps_lastDestroyTime:
  "lastDestroyTime exampleOldSession = 1700000005000
   \<and> lastDestroyTime (startGame True 9000 exampleOldSession) = 1700000005000
   \<and> combo (startGame True 9000 exampleOldSession) = 1
   \<and> score (startGame True 9000 exampleOldSession) = 0
   \<and> combo (scoreDestroy 1700000006000 30 (startGame True 9000 exampleOldSession)) = 2
   \<and> score (scoreDestroy 1700000006000 30 (startGame True 9000 exampleOldSession)) = 20"
  by (simp add: exampleOldSession_def startGame_def scoreDestroy_def Let_def CONFIG_def
        Math_round_def fl_numeral fl_one)


section \<open>Spawning\<close>

lemma random_bounds:
  "randomOk s \<Longrightarrow> 0 \<le> random s k \<and> random s k \<le> 1 - 1 / 2 ^ 53 \<and> random s k < 1
     \<and> fl (random s k) = random s k"
  using double_below_one[of "random s k"] by (simp add: randomOk_def random_def)

text \<open>The values of the source's expressions at the greatest double below 1.\<close>

lemma fl_max_values:
  "fl (1 - 1 / 2 ^ 53) = 1 - 1 / 2 ^ 53"
  "fl ((1 - 1 / 2 ^ 53) * 5) = 5 - 1 / 2 ^ 50"
  "fl ((1 - 1 / 2 ^ 53) * 30) = 30 - 1 / 2 ^ 48"
  "fl (30 + (30 - 1 / 2 ^ 48)) = 60"
  "fl ((1 - 1 / 2 ^ 53) * 20) = 20 - 1 / 2 ^ 48"
  "fl (20 + (20 - 1 / 2 ^ 48)) = 40"
  "fl ((1 - 1 / 2 ^ 53) * (5404319552844595 / 2 ^ 54)) = 2702159776422297 / 2 ^ 53"
  "fl (3152519739159347 / 2 ^ 52 + 2702159776422297 / 2 ^ 53) = 1 - 1 / 2 ^ 53"
  "fl (1 / 2 - 1 / 2 ^ 53) = 1 / 2 - 1 / 2 ^ 53"
  "fl ((1 / 2 - 1 / 2 ^ 53) * (3602879701896397 / 2 ^ 56)) = 3602879701896396 / 2 ^ 57"
  "fl (- (1 / 2) * (3602879701896397 / 2 ^ 56)) = - (3602879701896397 / 2 ^ 57)"
proof -
  show "fl (1 - 1 / 2 ^ 53) = 1 - 1 / 2 ^ 53"
    by (subst fl_eval_neg[of 1]) (simp_all add: rne_def)
  show "fl ((1 - 1 / 2 ^ 53) * 5) = 5 - 1 / 2 ^ 50"
    by (subst fl_eval_pos[of 2]) (simp_all add: rne_def)
  show "fl ((1 - 1 / 2 ^ 53) * 30) = 30 - 1 / 2 ^ 48"
    by (subst fl_eval_pos[of 4]) (simp_all add: rne_def)
  show "fl (30 + (30 - 1 / 2 ^ 48)) = 60"
    by (subst fl_eval_pos[of 5]) (simp_all add: rne_def)
  show "fl ((1 - 1 / 2 ^ 53) * 20) = 20 - 1 / 2 ^ 48"
    by (subst fl_eval_pos[of 4]) (simp_all add: rne_def)
  show "fl (20 + (20 - 1 / 2 ^ 48)) = 40"
    by (subst fl_eval_pos[of 5]) (simp_all add: rne_def)
  show "fl ((1 - 1 / 2 ^ 53) * (5404319552844595 / 2 ^ 54)) = 2702159776422297 / 2 ^ 53"
    by (subst fl_eval_neg[of 2]) (simp_all add: rne_def)
  show "fl (3152519739159347 / 2 ^ 52 + 2702159776422297 / 2 ^ 53) = 1 - 1 / 2 ^ 53"
    by (subst fl_eval_neg[of 1]) (simp_all add: rne_def)
  show "fl (1 / 2 - 1 / 2 ^ 53) = 1 / 2 - 1 / 2 ^ 53"
    by (subst fl_eval_neg[of 2]) (simp_all add: rne_def)
  show "fl ((1 / 2 - 1 / 2 ^ 53) * (3602879701896397 / 2 ^ 56)) = 3602879701896396 / 2 ^ 57"
    by (subst fl_eval_neg[of 6]) (simp_all add: rne_def)
  show "fl (- (1 / 2) * (3602879701896397 / 2 ^ 56)) = - (3602879701896397 / 2 ^ 57)"
    by (subst fl_eval_neg[of 6]) (simp_all add: rne_def)
qed

lemma fl_affine_bounds:
  assumes "0 \<le> u" "u \<le> 1" "0 \<le> b" "fl a = a" "fl b = b" "fl (a + b) = a + b"
  shows "a \<le> fl (a + fl (u * b)) \<and> fl (a + fl (u * b)) \<le> a + b"
proof -
  have "0 \<le> u * b" using assms(1,3) by simp
  then have l: "0 \<le> fl (u * b)" by (rule fl_nonneg)
  have "u * b \<le> 1 * b" using assms(2,3) by (rule mult_right_mono)
  then have "u * b \<le> b" by simp
  then have h: "fl (u * b) \<le> b" using assms(5) by (rule fl_le)
  have "a \<le> a + fl (u * b)" using l by simp
  then have "a \<le> fl (a + fl (u * b))" using assms(4) by (rule fl_ge)
  moreover have "a + fl (u * b) \<le> a + b" using h by simp
  then have "fl (a + fl (u * b)) \<le> a + b" using assms(6) by (rule fl_le)
  ultimately show ?thesis by blast
qed

lemma radius_bounds:
  assumes "0 \<le> u" "u \<le> 1"
  shows "30 \<le> fl (30 + fl (u * 30)) \<and> fl (30 + fl (u * 30)) \<le> 60"
  using fl_affine_bounds[OF assms, of 30 30] by (simp add: fl_numeral)

lemma hue_bounds:
  assumes "0 \<le> u" "u \<le> 1"
  shows "20 \<le> fl (20 + fl (u * 20)) \<and> fl (20 + fl (u * 20)) \<le> 40"
  using fl_affine_bounds[OF assms, of 20 20] by (simp add: fl_numeral)

lemma count_bounds:
  assumes "0 \<le> u" "u \<le> 1 - 1 / 2 ^ 53"
  shows "0 \<le> \<lfloor>fl (u * 5)\<rfloor> \<and> \<lfloor>fl (u * 5)\<rfloor> < 5"
proof -
  have "0 \<le> u * 5" using assms(1) by simp
  then have l: "0 \<le> fl (u * 5)" by (rule fl_nonneg)
  have "u * 5 \<le> (1 - 1 / 2 ^ 53) * 5" using assms(2) by simp
  then have "fl (u * 5) \<le> fl ((1 - 1 / 2 ^ 53) * 5)" by (rule fl_mono)
  then have "fl (u * 5) \<le> 5 - 1 / 2 ^ 50" by (simp only: fl_max_values)
  then have "fl (u * 5) < 5" by simp
  with l show ?thesis by (simp add: floor_less_iff)
qed

lemma factor_bounds:
  assumes "0 \<le> u" "u \<le> 1 - 1 / 2 ^ 53"
  shows "fl 0.7 \<le> fl (fl 0.7 + fl (u * fl 0.3)) \<and> fl (fl 0.7 + fl (u * fl 0.3)) < 1"
proof -
  have p: "0 \<le> fl 0.3" by (rule fl_nonneg) simp
  then have "0 \<le> u * fl 0.3" using assms(1) by simp
  then have "0 \<le> fl (u * fl 0.3)" by (rule fl_nonneg)
  then have "fl 0.7 \<le> fl 0.7 + fl (u * fl 0.3)" by simp
  then have l: "fl 0.7 \<le> fl (fl 0.7 + fl (u * fl 0.3))" by (rule fl_ge) (rule fl_idem)
  have "u * fl 0.3 \<le> (1 - 1 / 2 ^ 53) * fl 0.3"
    using assms(2) p by (rule mult_right_mono)
  then have "fl (u * fl 0.3) \<le> fl ((1 - 1 / 2 ^ 53) * fl 0.3)" by (rule fl_mono)
  then have "fl (u * fl 0.3) \<le> 2702159776422297 / 2 ^ 53"
    by (simp only: fl_0_3 fl_max_values)
  then have "fl 0.7 + fl (u * fl 0.3) \<le> 3152519739159347 / 2 ^ 52 + 2702159776422297 / 2 ^ 53"
    by (simp only: fl_0_7 add_left_mono)
  then have "fl (fl 0.7 + fl (u * fl 0.3))
      \<le> fl (3152519739159347 / 2 ^ 52 + 2702159776422297 / 2 ^ 53)"
    by (rule fl_mono)
  then have "fl (fl 0.7 + fl (u * fl 0.3)) \<le> 1 - 1 / 2 ^ 53" by (simp only: fl_max_values)
  then have "fl (fl 0.7 + fl (u * fl 0.3)) < 1" by simp
  with l show ?thesis by blast
qed

lemma rotationSpeed_bounds:
  assumes "0 \<le> u" "u \<le> 1 - 1 / 2 ^ 53"
  shows "- fl 0.025 \<le> fl (fl (u - 0.5) * fl 0.05)
         \<and> fl (fl (u - 0.5) * fl 0.05) < fl 0.025"
proof -
  have p: "0 \<le> fl 0.05" by (rule fl_nonneg) simp
  have "- (1 / 2) \<le> u - 0.5" using assms(1) by simp
  then have "- (1 / 2) \<le> fl (u - 0.5)" by (rule fl_ge) (simp add: fl_minus fl_half)
  then have "- (1 / 2) * fl 0.05 \<le> fl (u - 0.5) * fl 0.05" using p by (rule mult_right_mono)
  then have "fl (- (1 / 2) * fl 0.05) \<le> fl (fl (u - 0.5) * fl 0.05)" by (rule fl_mono)
  then have l: "- fl 0.025 \<le> fl (fl (u - 0.5) * fl 0.05)"
    by (simp only: fl_0_05 fl_0_025 fl_max_values)
  have "u - 0.5 \<le> 1 / 2 - 1 / 2 ^ 53" using assms(2) by simp
  then have "fl (u - 0.5) \<le> 1 / 2 - 1 / 2 ^ 53" by (rule fl_le) (rule fl_max_values)
  then have "fl (u - 0.5) * fl 0.05 \<le> (1 / 2 - 1 / 2 ^ 53) * fl 0.05"
    using p by (rule mult_right_mono)
  then have "fl (fl (u - 0.5) * fl 0.05) \<le> fl ((1 / 2 - 1 / 2 ^ 53) * fl 0.05)"
    by (rule fl_mono)
  then have "fl (fl (u - 0.5) * fl 0.05) \<le> 3602879701896396 / 2 ^ 57"
    by (simp only: fl_0_05 fl_max_values)
  then have "fl (fl (u - 0.5) * fl 0.05) < 3602879701896397 / 2 ^ 57" by simp
  then have "fl (fl (u - 0.5) * fl 0.05) < fl 0.025" by (simp only: fl_0_025)
  with l show ?thesis by blast
qed


lemma generateAsteroidShape_bounds:
  assumes "\<forall>i. 0 \<le> r i \<and> r i \<le> 1 - 1 / 2 ^ 53"
  shows "8 \<le> length (fst (generateAsteroidShape r))
         \<and> length (fst (generateAsteroidShape r)) < 13
         \<and> snd (generateAsteroidShape r) = 1 + length (fst (generateAsteroidShape r))
         \<and> list_all (\<lambda>v. fl 0.7 \<le> v_radius v \<and> v_radius v < 1)
              (fst (generateAsteroidShape r))"
proof -
  have "0 \<le> \<lfloor>fl (r 0 * 5)\<rfloor> \<and> \<lfloor>fl (r 0 * 5)\<rfloor> < 5"
    using count_bounds[of "r 0"] assms by simp
  then have "8 \<le> nat (8 + \<lfloor>fl (r 0 * 5)\<rfloor>) \<and> nat (8 + \<lfloor>fl (r 0 * 5)\<rfloor>) < 13" by linarith
  moreover have "fl 0.7 \<le> fl (fl 0.7 + fl (r (1 + i) * fl 0.3))
      \<and> fl (fl 0.7 + fl (r (1 + i) * fl 0.3)) < 1" for i
    using factor_bounds[of "r (1 + i)"] assms by simp
  ultimately show ?thesis
    by (simp add: generateAsteroidShape_def Let_def list_all_iff)
qed

lemma spawnAsteroid_new:
  assumes "randomOk s"
  shows "\<exists>a. asteroids (spawnAsteroid s) = asteroids s @ [a] \<and> wellShaped a"
proof -
  obtain x y k where xyk:
    "(if \<lfloor>fl (random s 0 * 4)\<rfloor> = 0
        then (Fin (fl (random s 1 * canvasWidth s)), Fin (- 50), 2)
      else if \<lfloor>fl (random s 0 * 4)\<rfloor> = 1
        then (Fin (fl (canvasWidth s + 50)), Fin (fl (random s 1 * canvasHeight s)), 2)
      else if \<lfloor>fl (random s 0 * 4)\<rfloor> = 2
        then (Fin (fl (random s 1 * canvasWidth s)), Fin (fl (canvasHeight s + 50)), 2)
      else if \<lfloor>fl (random s 0 * 4)\<rfloor> = 3
        then (Fin (- 50), Fin (fl (random s 1 * canvasHeight s)), 2)
      else (NaN, NaN, 1::nat)) = (x, y, k)"
    by (metis prod_cases3)
  let ?r = "\<lambda>i. random s (k + 6 + i)"
  obtain shape m where sh: "generateAsteroidShape ?r = (shape, m)" by fastforce
  have b: "0 \<le> random s j \<and> random s j \<le> 1 - 1 / 2 ^ 53 \<and> random s j \<le> 1" for j
    using random_bounds[OF assms, of j] by simp
  then have rb: "\<forall>i. 0 \<le> ?r i \<and> ?r i \<le> 1 - 1 / 2 ^ 53" by simp
  from generateAsteroidShape_bounds[OF rb] sh
  have shape: "8 \<le> length shape \<and> length shape < 13
      \<and> list_all (\<lambda>v. fl 0.7 \<le> v_radius v \<and> v_radius v < 1) shape"
    by simp
  show ?thesis
    using shape radius_bounds[of "random s (k + 3)"] rotationSpeed_bounds[of "random s (k + 5)"]
      hue_bounds[of "random s (k + 6 + m)"] b
    by (simp add: spawnAsteroid_def Let_def xyk sh wellShaped_def)
qed

lemma spawnAsteroid_length:
  "length (asteroids (spawnAsteroid s)) = length (asteroids s) + 1"
  by (simp add: spawnAsteroid_def Let_def split: prod.splits)

text \<open>When every call of \<^verbatim>\<open>Math.random()\<close> returns \<open>u\<close>, the radius and the hue of the
  spawned asteroid are these.\<close>

lemma spawnAsteroid_constant_random:
  assumes "\<forall>j. random s j = u"
  shows "a_radius (last (asteroids (spawnAsteroid s))) = fl (30 + fl (u * 30))"
    "a_hue (last (asteroids (spawnAsteroid s))) = fl (20 + fl (u * 20))"
  using assms by (simp_all add: spawnAsteroid_def Let_def split: prod.splits)

lemma moveAsteroid_keeps:
  "a_vertices (moveAsteroid a) = a_vertices a \<and> a_radius (moveAsteroid a) = a_radius a
   \<and> a_rotationSpeed (moveAsteroid a) = a_rotationSpeed a \<and> a_hue (moveAsteroid a) = a_hue a"
  by (simp add: moveAsteroid_def)

lemma wellShaped_moveAsteroid: "wellShaped (moveAsteroid a) = wellShaped a"
  by (simp add: wellShaped_def moveAsteroid_keeps)

lemma updateAsteroids_shapes:
  "map a_vertices (asteroids (updateAsteroids t)) =
     map a_vertices (filter (\<lambda>b. survives t (moveAsteroid b)) (asteroids t))"
  by (simp add: asteroids_updateAsteroids filter_map comp_def moveAsteroid_keeps)

lemma updateAsteroids_wellShaped:
  "list_all wellShaped (asteroids t) \<Longrightarrow> list_all wellShaped (asteroids (updateAsteroids t))"
  by (auto simp: asteroids_updateAsteroids list_all_iff wellShaped_moveAsteroid)

lemma updateAsteroids_rand: "rand (updateAsteroids s) = rand s"
proof -
  have "rand (updateAsteroidsLoop n s) = rand s" for n
    by (rule updateAsteroidsLoop_invariant[where P = "\<lambda>t. rand t = rand s"])
       (simp_all add: asteroidStep_frame)
  then show ?thesis by (simp add: updateAsteroids_def)
qed

lemma spawnAsteroid_rand: "rand (spawnAsteroid s) = rand s"
  by (simp add: spawnAsteroid_def Let_def split: prod.splits)

lemma gameLoop_asteroids:
  assumes "isPlaying s"
  shows "\<exists>s2. asteroids (gameLoop t s) = asteroids (updateAsteroids s2)
            \<and> rand s2 = rand s
            \<and> (asteroids s2 = asteroids s
               \<or> (\<exists>s1. rand s1 = rand s \<and> asteroids s1 = asteroids s
                        \<and> asteroids s2 = asteroids (spawnAsteroid s1)))"
proof -
  define s1 where "s1 = s\<lparr> lastFrameTime := t,
                              gameTime := fl (gameTime s + fl (t - lastFrameTime s)) \<rparr>"
  define s2 where "s2 = (if fl (t - lastSpawnTime s1) > spawnInterval (gameTime s1)
                  then (spawnAsteroid s1)\<lparr> lastSpawnTime := t \<rparr> else s1)"
  have a: "asteroids (gameLoop t s) = asteroids (updateAsteroids s2)"
    by (simp add: gameLoop_def assms Let_def s2_def s1_def render_def updateParticles_def)
  have r: "rand s2 = rand s"
    by (simp add: s2_def s1_def spawnAsteroid_rand)
  have "asteroids s2 = asteroids s
      \<or> (rand s1 = rand s \<and> asteroids s1 = asteroids s
          \<and> asteroids s2 = asteroids (spawnAsteroid s1))"
    by (simp add: s2_def s1_def)
  with a r show ?thesis by blast
qed

lemma gameLoop_rand: "rand (gameLoop t s) = rand s"
  by (simp add: gameLoop_def Let_def render_def updateParticles_def updateAsteroids_rand
        spawnAsteroid_rand)

lemma gameLoop_wellShaped:
  assumes "list_all wellShaped (asteroids s)" "randomOk s"
  shows "list_all wellShaped (asteroids (gameLoop t s))"
proof (cases "isPlaying s")
  case False
  with assms(1) show ?thesis by (simp add: gameLoop_def)
next
  case True
  from gameLoop_asteroids[OF True, of t] obtain s2 where
    a: "asteroids (gameLoop t s) = asteroids (updateAsteroids s2)" and
    c: "asteroids s2 = asteroids s
        \<or> (\<exists>s1. rand s1 = rand s \<and> asteroids s1 = asteroids s
                 \<and> asteroids s2 = asteroids (spawnAsteroid s1))"
    by blast
  from c have "list_all wellShaped (asteroids s2)"
  proof
    assume "asteroids s2 = asteroids s"
    with assms(1) show ?thesis by simp
  next
    assume "\<exists>s1. rand s1 = rand s \<and> asteroids s1 = asteroids s
                 \<and> asteroids s2 = asteroids (spawnAsteroid s1)"
    then obtain s1 where s1: "rand s1 = rand s" "asteroids s1 = asteroids s"
      "asteroids s2 = asteroids (spawnAsteroid s1)" by blast
    from s1(1) assms(2) have "randomOk s1" by (simp add: randomOk_def)
    from spawnAsteroid_new[OF this] s1 assms(1) show ?thesis by auto
  qed
  then show ?thesis unfolding a by (rule updateAsteroids_wellShaped)
qed

lemma handle_wellShaped:
  assumes "list_all wellShaped (asteroids s)" "randomOk s"
  shows "list_all wellShaped (asteroids (handle e s)) \<and> randomOk (handle e s)"
proof (cases e)
  case (StartGame b t)
  with assms show ?thesis by (simp add: startGame_def randomOk_def)
next
  case (GameLoop t)
  with assms show ?thesis by (simp add: gameLoop_wellShaped randomOk_def gameLoop_rand)
next
  case (HandResults r)
  show ?thesis
  proof (cases "onHandResults r s")
    case (Inl err)
    with HandResults assms show ?thesis by simp
  next
    case (Inr s')
    then have "rand s' = rand s"
      by (auto simp: onHandResults_def Let_def split: option.splits list.splits if_splits)
    with Inr HandResults assms show ?thesis
      by (simp add: onHandResults_session randomOk_def)
  qed
qed

lemma run_wellShaped:
  assumes "list_all wellShaped (asteroids s)" "randomOk s"
  shows "list_all wellShaped (asteroids (run es s))"
  using assms
proof (induction es arbitrary: s)
  case Nil
  then show ?case by (simp add: run_def)
next
  case (Cons e es)
  from handle_wellShaped[OF Cons.prems] Cons.IH[of "handle e s"]
  show ?case by (simp add: run_def)
qed

text \<open>
  C6 (as the code has it): with \<^verbatim>\<open>Math.random()\<close> returning doubles in \<open>[0, 1)\<close>,
  \<open>spawnAsteroid\<close> adds one asteroid to the end of the store, with a radius in
  \<open>[30, 60]\<close>, 8 to 12 vertices whose radial factors are at least the double 0.7 and
  less than 1, a rotation speed that is at least the double -0.025 and less than the
  double 0.025, and a hue in \<open>[20, 40]\<close>: the sums \<^verbatim>\<open>30 + Math.random() * 30\<close> and
  \<^verbatim>\<open>20 + Math.random() * 20\<close> are rounded, and reach 60 and 40. The motion of an asteroid
  keeps its polygon; after a pass of \<open>updateAsteroids\<close> the polygons in the store are those
  of the asteroids that stay, in their order; the particle pass and an explosion leave the
  asteroids as they are; and over every sequence of events of the game the bounds hold for
  every asteroid in the store.
\<close>

theorem spawn_bounds_and_shape:
  "(randomOk s \<longrightarrow>
      (\<exists>a. asteroids (spawnAsteroid s) = asteroids s @ [a]
          \<and> 30 \<le> a_radius a \<and> a_radius a \<le> 60
          \<and> 8 \<le> length (a_vertices a) \<and> length (a_vertices a) < 13
          \<and> (\<forall>v \<in> set (a_vertices a). fl 0.7 \<le> v_radius v \<and> v_radius v < 1)
          \<and> - fl 0.025 \<le> a_rotationSpeed a \<and> a_rotationSpeed a < fl 0.025
          \<and> 20 \<le> a_hue a \<and> a_hue a \<le> 40))
   \<and> a_vertices (moveAsteroid b) = a_vertices b
   \<and> map a_vertices (asteroids (updateAsteroids s)) =
        map a_vertices (filter (\<lambda>b. survives s (moveAsteroid b)) (asteroids s))
   \<and> asteroids (updateParticles s) = asteroids s
   \<and> asteroids (createExplosion x y sz s) = asteroids s
   \<and> (randomOk s \<and> list_all wellShaped (asteroids s) \<longrightarrow>
        list_all wellShaped (asteroids (run es s)))"
proof -
  have a: "randomOk s \<longrightarrow>
      (\<exists>a. asteroids (spawnAsteroid s) = asteroids s @ [a]
          \<and> 30 \<le> a_radius a \<and> a_radius a \<le> 60
          \<and> 8 \<le> length (a_vertices a) \<and> length (a_vertices a) < 13
          \<and> (\<forall>v \<in> set (a_vertices a). fl 0.7 \<le> v_radius v \<and> v_radius v < 1)
          \<and> - fl 0.025 \<le> a_rotationSpeed a \<and> a_rotationSpeed a < fl 0.025
          \<and> 20 \<le> a_hue a \<and> a_hue a \<le> 40)"
    using spawnAsteroid_new[of s] by (simp add: wellShaped_def list_all_iff)
  have b: "a_vertices (moveAsteroid b) = a_vertices b"
    by (simp add: moveAsteroid_keeps)
  have c: "asteroids (updateParticles s) = asteroids s
      \<and> asteroids (createExplosion x y sz s) = asteroids s"
    by (simp add: updateParticles_def createExplosion_def Let_def)
  have d: "randomOk s \<and> list_all wellShaped (asteroids s) \<longrightarrow>
        list_all wellShaped (asteroids (run es s))"
    using run_wellShaped[of s es] by simp
  from a b c d updateAsteroids_shapes[of s] show ?thesis by blast
qed

theorem spawn_bounds_and_shape_witness:
  "randomOk exampleState
   \<and> (\<exists>a. asteroids (spawnAsteroid exampleState) = asteroids exampleState @ [a]
          \<and> 30 \<le> a_radius a \<and> a_radius a \<le> 60
          \<and> 8 \<le> length (a_vertices a) \<and> length (a_vertices a) < 13
          \<and> 20 \<le> a_hue a \<and> a_hue a \<le> 40)
   \<and> list_all wellShaped
        (asteroids (run [StartGame True 0, GameLoop 16, GameLoop 3000] exampleState))"
proof -
  have r: "randomOk exampleState"
    by (simp add: randomOk_def exampleState_def initialState_def fl_zero)
  have e: "list_all wellShaped (asteroids exampleState)"
    by (simp add: exampleState_def initialState_def)
  from spawn_bounds_and_shape[of exampleState _ _ _ _ "[StartGame True 0, GameLoop 16, GameLoop 3000]"]
    r e
  show ?thesis by blast
qed

text \<open>The claim C6 fails on the doubles of the code: when \<^verbatim>\<open>Math.random()\<close> returns the
  greatest double below 1, the spawned asteroid has the radius 60 and the hue 40.\<close>

theorem spawn_bounds_counterexample:
  "randomOk exampleMaxRandomState
   \<and> length (asteroids (spawnAsteroid exampleMaxRandomState)) = 1
   \<and> a_radius (last (asteroids (spawnAsteroid exampleMaxRandomState))) = 60
   \<and> a_hue (last (asteroids (spawnAsteroid exampleMaxRandomState))) = 40"
proof -
  have r: "randomOk exampleMaxRandomState"
    using fl_max_values(1)
    by (simp add: randomOk_def exampleMaxRandomState_def initialState_def)
  have u: "\<forall>j. random exampleMaxRandomState j = 1 - 1 / 2 ^ 53"
    by (simp add: random_def exampleMaxRandomState_def initialState_def)
  have "asteroids exampleMaxRandomState = []"
    by (simp add: exampleMaxRandomState_def initialState_def)
  then have n: "length (asteroids (spawnAsteroid exampleMaxRandomState)) = 1"
    by (simp add: spawnAsteroid_length)
  have "a_radius (last (asteroids (spawnAsteroid exampleMaxRandomState))) = 60"
    unfolding spawnAsteroid_constant_random(1)[OF u] by (simp only: fl_max_values)
  moreover have "a_hue (last (asteroids (spawnAsteroid exampleMaxRandomState))) = 40"
    unfolding spawnAsteroid_constant_random(2)[OF u] by (simp only: fl_max_values)
  ultimately show ?thesis using r n by blast
qed


section \<open>Difficulty\<close>

lemma spawnInterval_bounds:
  "spawnInterval t = max 500 (fl (2000 - fl (t / 100)))"
  "500 \<le> spawnInterval t"
  "0 \<le> t \<Longrightarrow> spawnInterval t \<le> 2000"
  "t \<le> t' \<Longrightarrow> spawnInterval t' \<le> spawnInterval t"
proof -
  show e: "spawnInterval t = max 500 (fl (2000 - fl (t / 100)))" for t
    by (simp add: spawnInterval_def CONFIG_def)
  show "500 \<le> spawnInterval t"
    by (simp add: e)
  show "spawnInterval t \<le> 2000" if "0 \<le> t"
  proof -
    have "0 \<le> t / 100" using that by simp
    then have "0 \<le> fl (t / 100)" by (rule fl_nonneg)
    then have "2000 - fl (t / 100) \<le> 2000" by simp
    then have "fl (2000 - fl (t / 100)) \<le> 2000" by (rule fl_le) (simp add: fl_numeral)
    then show ?thesis by (simp add: e)
  qed
  show "spawnInterval t' \<le> spawnInterval t" if "t \<le> t'"
  proof -
    have "t / 100 \<le> t' / 100" using that by simp
    then have "fl (t / 100) \<le> fl (t' / 100)" by (rule fl_mono)
    then have "2000 - fl (t' / 100) \<le> 2000 - fl (t / 100)" by simp
    then have "fl (2000 - fl (t' / 100)) \<le> fl (2000 - fl (t / 100))" by (rule fl_mono)
    then show ?thesis by (simp add: e max_def)
  qed
qed

lemma difficultyMultiplier_bounds:
  "difficultyMultiplier t = min 2 (fl (1 + fl (t / 30000)))"
  "difficultyMultiplier t \<le> 2"
  "0 \<le> t \<Longrightarrow> 1 \<le> difficultyMultiplier t"
  "t \<le> t' \<Longrightarrow> difficultyMultiplier t \<le> difficultyMultiplier t'"
proof -
  show e: "difficultyMultiplier t = min 2 (fl (1 + fl (t / 30000)))" for t
    by (simp add: difficultyMultiplier_def CONFIG_def)
  show "difficultyMultiplier t \<le> 2"
    by (simp add: e)
  show "1 \<le> difficultyMultiplier t" if "0 \<le> t"
  proof -
    have "0 \<le> t / 30000" using that by simp
    then have "0 \<le> fl (t / 30000)" by (rule fl_nonneg)
    then have "1 \<le> 1 + fl (t / 30000)" by simp
    then have "1 \<le> fl (1 + fl (t / 30000))" by (rule fl_ge) (rule fl_one)
    then show ?thesis by (simp add: e)
  qed
  show "difficultyMultiplier t \<le> difficultyMultiplier t'" if "t \<le> t'"
  proof -
    have "t / 30000 \<le> t' / 30000" using that by simp
    then have "fl (t / 30000) \<le> fl (t' / 30000)" by (rule fl_mono)
    then have "1 + fl (t / 30000) \<le> 1 + fl (t' / 30000)" by simp
    then have "fl (1 + fl (t / 30000)) \<le> fl (1 + fl (t' / 30000))" by (rule fl_mono)
    then show ?thesis by (simp add: e min_def)
  qed
qed

lemma fl_speed_values:
  "fl ((1 - 1 / 2 ^ 53) * (3602879701896397 / 2 ^ 53)) = 7205759403792793 / 2 ^ 54"
  "fl (3602879701896397 / 2 ^ 52 + 7205759403792793 / 2 ^ 54) = 5404319552844595 / 2 ^ 52"
  "fl ((1 - 1 / 2 ^ 53) * 4) = 4 - 1 / 2 ^ 51"
proof -
  show "fl ((1 - 1 / 2 ^ 53) * (3602879701896397 / 2 ^ 53)) = 7205759403792793 / 2 ^ 54"
    by (subst fl_eval_neg[of 2]) (simp_all add: rne_def)
  show "fl (3602879701896397 / 2 ^ 52 + 7205759403792793 / 2 ^ 54) = 5404319552844595 / 2 ^ 52"
    by (subst fl_eval_pos[of 0]) (simp_all add: rne_def)
  show "fl ((1 - 1 / 2 ^ 53) * 4) = 4 - 1 / 2 ^ 51"
    by (subst fl_eval_pos[of 1]) (simp_all add: rne_def)
qed

text \<open>The factor \<^verbatim>\<open>0.8 + Math.random() * 0.4\<close> lies between the doubles 0.8 and 1.2, the
  first of which is above the real number 0.8, and the second below the real number 1.2.\<close>

lemma speedFactor_bounds:
  assumes "0 \<le> u" "u \<le> 1 - 1 / 2 ^ 53"
  shows "fl 0.8 \<le> speedFactor u" "speedFactor u \<le> fl 1.2"
    "0.8 \<le> speedFactor u" "speedFactor u < 1.2"
proof -
  have p: "0 \<le> fl 0.4" by (rule fl_nonneg) simp
  then have "0 \<le> u * fl 0.4" using assms(1) by simp
  then have "0 \<le> fl (u * fl 0.4)" by (rule fl_nonneg)
  then have "fl 0.8 \<le> fl 0.8 + fl (u * fl 0.4)" by simp
  then have "fl 0.8 \<le> fl (fl 0.8 + fl (u * fl 0.4))" by (rule fl_ge) (rule fl_idem)
  then show l: "fl 0.8 \<le> speedFactor u" by (simp only: speedFactor_def)
  have "u * fl 0.4 \<le> (1 - 1 / 2 ^ 53) * fl 0.4"
    using assms(2) p by (rule mult_right_mono)
  then have "fl (u * fl 0.4) \<le> fl ((1 - 1 / 2 ^ 53) * fl 0.4)" by (rule fl_mono)
  then have "fl (u * fl 0.4) \<le> 7205759403792793 / 2 ^ 54"
    by (simp only: fl_0_4 fl_speed_values)
  then have "fl 0.8 + fl (u * fl 0.4) \<le> 3602879701896397 / 2 ^ 52 + 7205759403792793 / 2 ^ 54"
    by (simp only: fl_0_8 add_left_mono)
  then have "fl (fl 0.8 + fl (u * fl 0.4))
      \<le> fl (3602879701896397 / 2 ^ 52 + 7205759403792793 / 2 ^ 54)"
    by (rule fl_mono)
  then have "fl (fl 0.8 + fl (u * fl 0.4)) \<le> fl 1.2" by (simp only: fl_speed_values fl_1_2)
  then show h: "speedFactor u \<le> fl 1.2" by (simp only: speedFactor_def)
  have "(0.8::real) \<le> fl 0.8" unfolding fl_0_8 by simp
  then show "0.8 \<le> speedFactor u" using l by (rule order_trans)
  have "fl 1.2 < (1.2::real)" unfolding fl_1_2 by simp
  with h show "speedFactor u < 1.2" by (rule le_less_trans)
qed

lemma spawn_side_range:
  assumes "randomOk s"
  shows "\<lfloor>fl (random s 0 * 4)\<rfloor> = 0 \<or> \<lfloor>fl (random s 0 * 4)\<rfloor> = 1
         \<or> \<lfloor>fl (random s 0 * 4)\<rfloor> = 2 \<or> \<lfloor>fl (random s 0 * 4)\<rfloor> = 3"
proof -
  note b = random_bounds[OF assms, of 0]
  have "0 \<le> random s 0 * 4" using b by simp
  then have l: "0 \<le> fl (random s 0 * 4)" by (rule fl_nonneg)
  have "random s 0 * 4 \<le> (1 - 1 / 2 ^ 53) * 4" using b by simp
  then have "fl (random s 0 * 4) \<le> fl ((1 - 1 / 2 ^ 53) * 4)" by (rule fl_mono)
  then have "fl (random s 0 * 4) \<le> 4 - 1 / 2 ^ 51" by (simp only: fl_speed_values)
  then have "fl (random s 0 * 4) < 4" by simp
  with l have "0 \<le> \<lfloor>fl (random s 0 * 4)\<rfloor> \<and> \<lfloor>fl (random s 0 * 4)\<rfloor> < 4"
    by (simp add: floor_less_iff)
  then show ?thesis by linarith
qed

text \<open>The distance of \<open>spawnAsteroid\<close> is zero only where both differences are zero, so
  the quotients by zero of \<open>spawnAsteroid\<close> are quotients of zero by zero.\<close>

lemma spawn_distance_zero:
  assumes "jsqrt (jadd (jmul (Fin a) (Fin a)) (jmul (Fin b) (Fin b))) = Fin 0"
  shows "a = 0 \<and> b = 0"
proof -
  have pa: "0 \<le> fl (a * a)" by (rule fl_nonneg) simp
  have pb: "0 \<le> fl (b * b)" by (rule fl_nonneg) simp
  from pa pb have "0 \<le> fl (a * a) + fl (b * b)" by simp
  then have ps: "0 \<le> fl (fl (a * a) + fl (b * b))" by (rule fl_nonneg)
  with assms have "fl (sqrt (fl (fl (a * a) + fl (b * b)))) = 0" by simp
  then have "fl (fl (a * a) + fl (b * b)) = 0" by (simp add: fl_eq_0_iff)
  then have "fl (a * a) + fl (b * b) = 0" by (simp add: fl_eq_0_iff)
  with pa pb have "fl (a * a) = 0 \<and> fl (b * b) = 0"
    by (simp add: add_nonneg_eq_0_iff)
  then show ?thesis by (simp add: fl_eq_0_iff)
qed

lemma spawn_distance_pos:
  assumes "1 / 2 \<le> \<bar>a\<bar> \<or> 1 / 2 \<le> \<bar>b\<bar>"
  shows "1 / 2 \<le> fl (sqrt (fl (fl (a * a) + fl (b * b))))"
proof -
  have q: "fl (1 / 4) = 1 / 4" using fl_exact[of 1 "- 2"] by simp
  have sq: "1 / 4 \<le> c * c" if "1 / 2 \<le> \<bar>c\<bar>" for c :: real
  proof -
    have "(1 / 2) * (1 / 2) \<le> \<bar>c\<bar> * \<bar>c\<bar>" using that by (intro mult_mono) simp_all
    then show ?thesis by (simp add: abs_mult_self_eq)
  qed
  have pa: "0 \<le> fl (a * a)" by (rule fl_nonneg) simp
  have pb: "0 \<le> fl (b * b)" by (rule fl_nonneg) simp
  from assms have "1 / 4 \<le> fl (a * a) \<or> 1 / 4 \<le> fl (b * b)"
    using fl_ge[OF sq[of a] q] fl_ge[OF sq[of b] q] by blast
  with pa pb have "1 / 4 \<le> fl (a * a) + fl (b * b)" by linarith
  then have "1 / 4 \<le> fl (fl (a * a) + fl (b * b))" using q by (rule fl_ge)
  then have "(1 / 2)\<^sup>2 \<le> fl (fl (a * a) + fl (b * b))" by (simp add: power2_eq_square)
  then have "1 / 2 \<le> sqrt (fl (fl (a * a) + fl (b * b)))" by (rule real_le_rsqrt)
  then show ?thesis using fl_half by (rule fl_ge)
qed

text \<open>The target of \<open>spawnAsteroid\<close> is at most 100 away from the middle of the canvas, in
  each coordinate.\<close>

lemma target_bounds:
  assumes "0 \<le> u" "u \<le> 1"
  shows "c - 100 \<le> c + fl (fl (u - 0.5) * 200)" "c + fl (fl (u - 0.5) * 200) \<le> c + 100"
proof -
  have "- (1 / 2) \<le> u - 0.5" using assms(1) by simp
  then have "- (1 / 2) \<le> fl (u - 0.5)" by (rule fl_ge) (simp add: fl_minus fl_half)
  then have "- 100 \<le> fl (u - 0.5) * 200" by simp
  then have "- 100 \<le> fl (fl (u - 0.5) * 200)" by (rule fl_ge) (simp add: fl_neg_numeral)
  then show "c - 100 \<le> c + fl (fl (u - 0.5) * 200)" by simp
  have "u - 0.5 \<le> 1 / 2" using assms(2) by simp
  then have "fl (u - 0.5) \<le> 1 / 2" using fl_half by (rule fl_le)
  then have "fl (u - 0.5) * 200 \<le> 100" by simp
  then have "fl (fl (u - 0.5) * 200) \<le> 100" by (rule fl_le) (simp add: fl_numeral)
  then show "c + fl (fl (u - 0.5) * 200) \<le> c + 100" by simp
qed

text \<open>A spawn point on the top or the left edge, 50 outside a canvas of at least 101.\<close>

lemma spawn_near_edge:
  assumes "0 \<le> u" "u \<le> 1" "101 \<le> w"
  shows "1 / 2 \<le> fl (fl (fl (w / 2) + fl (fl (u - 0.5) * 200)) - (- 50))"
proof -
  have h: "fl (101 / 2) = 101 / 2" using fl_exact[of 101 "- 1"] by simp
  have g: "fl (- (99 / 2)) = - (99 / 2)" using fl_exact[of "- 99" "- 1"] by simp
  have "101 / 2 \<le> w / 2" using assms(3) by simp
  then have "101 / 2 \<le> fl (w / 2)" using h by (rule fl_ge)
  with target_bounds(1)[OF assms(1,2), of "fl (w / 2)"]
  have "- (99 / 2) \<le> fl (w / 2) + fl (fl (u - 0.5) * 200)" by simp
  then have "- (99 / 2) \<le> fl (fl (w / 2) + fl (fl (u - 0.5) * 200))" using g by (rule fl_ge)
  then have "1 / 2 \<le> fl (fl (w / 2) + fl (fl (u - 0.5) * 200)) - (- 50)" by simp
  then show ?thesis using fl_half by (rule fl_ge)
qed

text \<open>A spawn point on the bottom or the right edge, 50 outside a canvas with an integer
  size of at least 101.\<close>

lemma spawn_far_edge:
  assumes "0 \<le> u" "u \<le> 1" "101 \<le> m" "m \<le> 2 ^ 52"
  shows "fl (fl (fl (of_int m / 2) + fl (fl (u - 0.5) * 200)) - fl (of_int m + 50)) \<le> - (1 / 2)"
proof -
  have "\<bar>m\<bar> < 2 ^ 53" using assms(3,4) by simp
  from fl_exact[OF this, of "- 1"] have a: "fl (of_int m / 2) = of_int m / 2" by simp
  have "\<bar>m + 50\<bar> < 2 ^ 53" using assms(3,4) by simp
  from fl_int[OF this] have b: "fl (of_int m + 50) = of_int m + 50" by simp
  have "\<bar>m + 200\<bar> < 2 ^ 53" using assms(3,4) by simp
  from fl_exact[OF this, of "- 1"] have c: "fl (of_int m / 2 + 100) = of_int m / 2 + 100"
    by (simp add: add_divide_distrib)
  have g: "fl (- (1 / 2)) = - (1 / 2)" by (simp add: fl_minus fl_half)
  from target_bounds(2)[OF assms(1,2), of "of_int m / 2"]
  have "fl (of_int m / 2 + fl (fl (u - 0.5) * 200)) \<le> of_int m / 2 + 100" using c by (rule fl_le)
  moreover have "real_of_int 101 \<le> of_int m" using assms(3) by (simp only: of_int_le_iff)
  ultimately have "fl (of_int m / 2 + fl (fl (u - 0.5) * 200)) - (of_int m + 50) \<le> - (1 / 2)"
    by simp
  then have "fl (fl (of_int m / 2 + fl (fl (u - 0.5) * 200)) - (of_int m + 50)) \<le> - (1 / 2)"
    using g by (rule fl_le)
  then show ?thesis by (simp only: a b)
qed


lemma spawnAsteroid_velocity:
  assumes ok: "randomOk s"
  shows "\<exists>a u dx dy. asteroids (spawnAsteroid s) = asteroids s @ [a]
           \<and> 0.8 \<le> u \<and> u < 1.2
           \<and> a_vx a = jmul (jdiv dx (jsqrt (jadd (jmul dx dx) (jmul dy dy))))
                         (Fin (fl (fl (1.5 * difficultyMultiplier (gameTime s)) * u)))
           \<and> a_vy a = jmul (jdiv dy (jsqrt (jadd (jmul dx dx) (jmul dy dy))))
                         (Fin (fl (fl (1.5 * difficultyMultiplier (gameTime s)) * u)))
           \<and> (canvasWidth s = of_int m \<and> canvasHeight s = of_int n
                  \<and> 101 \<le> m \<and> m \<le> 2 ^ 52 \<and> 101 \<le> n \<and> n \<le> 2 ^ 52 \<longrightarrow>
                (\<exists>p q. dx = Fin p \<and> dy = Fin q \<and> (1 / 2 \<le> \<bar>p\<bar> \<or> 1 / 2 \<le> \<bar>q\<bar>)))"
proof -
  obtain x y k where xyk:
    "(if \<lfloor>fl (random s 0 * 4)\<rfloor> = 0
        then (Fin (fl (random s 1 * canvasWidth s)), Fin (- 50), 2)
      else if \<lfloor>fl (random s 0 * 4)\<rfloor> = 1
        then (Fin (fl (canvasWidth s + 50)), Fin (fl (random s 1 * canvasHeight s)), 2)
      else if \<lfloor>fl (random s 0 * 4)\<rfloor> = 2
        then (Fin (fl (random s 1 * canvasWidth s)), Fin (fl (canvasHeight s + 50)), 2)
      else if \<lfloor>fl (random s 0 * 4)\<rfloor> = 3
        then (Fin (- 50), Fin (fl (random s 1 * canvasHeight s)), 2)
      else (NaN, NaN, 1::nat)) = (x, y, k)"
    by (metis prod_cases3)
  obtain shape m' where sh: "generateAsteroidShape (\<lambda>i. random s (k + 6 + i)) = (shape, m')"
    by fastforce
  define centerX where
    "centerX = fl (fl (canvasWidth s / 2) + fl (fl (random s k - 0.5) * 200))"
  define centerY where
    "centerY = fl (fl (canvasHeight s / 2) + fl (fl (random s (k + 1) - 0.5) * 200))"
  define dx where "dx = jsub (Fin centerX) x"
  define dy where "dy = jsub (Fin centerY) y"
  define u where "u = speedFactor (random s (k + 2))"
  define a where "a = \<lparr> a_x = x, a_y = y,
      a_vx = jmul (jdiv dx (jsqrt (jadd (jmul dx dx) (jmul dy dy))))
               (Fin (fl (fl (1.5 * difficultyMultiplier (gameTime s)) * u))),
      a_vy = jmul (jdiv dy (jsqrt (jadd (jmul dx dx) (jmul dy dy))))
               (Fin (fl (fl (1.5 * difficultyMultiplier (gameTime s)) * u))),
      a_radius = fl (30 + fl (random s (k + 3) * 30)),
      a_rotation = fl (fl (random s (k + 4) * fl pi) * 2),
      a_rotationSpeed = fl (fl (random s (k + 5) - 0.5) * fl 0.05),
      a_vertices = shape,
      a_hue = fl (20 + fl (random s (k + 6 + m') * 20)) \<rparr>"
  note b = random_bounds[OF ok]
  have sp: "asteroids (spawnAsteroid s) = asteroids s @ [a]"
    by (simp add: spawnAsteroid_def Let_def xyk sh a_def dx_def dy_def centerX_def centerY_def
          u_def asteroidSpeed_def CONFIG_def)
  have ub: "0.8 \<le> u \<and> u < 1.2"
    unfolding u_def using speedFactor_bounds(3,4)[of "random s (k + 2)"] b[of "k + 2"] by blast
  have v: "a_vx a = jmul (jdiv dx (jsqrt (jadd (jmul dx dx) (jmul dy dy))))
                         (Fin (fl (fl (1.5 * difficultyMultiplier (gameTime s)) * u)))
      \<and> a_vy a = jmul (jdiv dy (jsqrt (jadd (jmul dx dx) (jmul dy dy))))
                         (Fin (fl (fl (1.5 * difficultyMultiplier (gameTime s)) * u)))"
    by (simp add: a_def)
  have geo: "\<exists>p q. dx = Fin p \<and> dy = Fin q \<and> (1 / 2 \<le> \<bar>p\<bar> \<or> 1 / 2 \<le> \<bar>q\<bar>)"
    if c: "canvasWidth s = of_int m \<and> canvasHeight s = of_int n
                  \<and> 101 \<le> m \<and> m \<le> 2 ^ 52 \<and> 101 \<le> n \<and> n \<le> 2 ^ 52"
  proof -
    from spawn_side_range[OF ok] xyk have k: "k = 2" by (auto split: if_splits)
    have wm: "real_of_int 101 \<le> of_int m" "real_of_int 101 \<le> of_int n"
      using c by (simp_all only: of_int_le_iff)
    then have w: "101 \<le> canvasWidth s" "101 \<le> canvasHeight s" using c by simp_all
    have r2: "0 \<le> random s 2 \<and> random s 2 \<le> 1" and r3: "0 \<le> random s 3 \<and> random s 3 \<le> 1"
      using b[of 2] b[of 3] by simp_all
    from spawn_side_range[OF ok] xyk consider
        (top) "y = Fin (- 50)" "\<exists>x'. x = Fin x'"
      | (right) "x = Fin (fl (canvasWidth s + 50))" "\<exists>y'. y = Fin y'"
      | (bottom) "y = Fin (fl (canvasHeight s + 50))" "\<exists>x'. x = Fin x'"
      | (left) "x = Fin (- 50)" "\<exists>y'. y = Fin y'"
      by (auto split: if_splits)
    then show ?thesis
    proof cases
      case top
      then obtain x' where x': "x = Fin x'" by blast
      have "1 / 2 \<le> fl (centerY - (- 50))"
        unfolding centerY_def k using spawn_near_edge[of "random s 3" "canvasHeight s"] r3 w
        by simp
      then have "1 / 2 \<le> \<bar>fl (centerY - (- 50))\<bar>" by simp
      then show ?thesis unfolding dx_def dy_def x' top(1) by simp
    next
      case left
      then obtain y' where y': "y = Fin y'" by blast
      have "1 / 2 \<le> fl (centerX - (- 50))"
        unfolding centerX_def k using spawn_near_edge[of "random s 2" "canvasWidth s"] r2 w
        by simp
      then have "1 / 2 \<le> \<bar>fl (centerX - (- 50))\<bar>" by simp
      then show ?thesis unfolding dx_def dy_def y' left(1) by simp
    next
      case right
      then obtain y' where y': "y = Fin y'" by blast
      have "fl (centerX - fl (canvasWidth s + 50)) \<le> - (1 / 2)"
        unfolding centerX_def k using spawn_far_edge[of "random s 2" m] r2 c by simp
      then have "1 / 2 \<le> \<bar>fl (centerX - fl (canvasWidth s + 50))\<bar>" by simp
      then show ?thesis unfolding dx_def dy_def y' right(1) by simp
    next
      case bottom
      then obtain x' where x': "x = Fin x'" by blast
      have "fl (centerY - fl (canvasHeight s + 50)) \<le> - (1 / 2)"
        unfolding centerY_def k using spawn_far_edge[of "random s 3" n] r3 c by simp
      then have "1 / 2 \<le> \<bar>fl (centerY - fl (canvasHeight s + 50))\<bar>" by simp
      then show ?thesis unfolding dx_def dy_def x' bottom(1) by simp
    qed
  qed
  have "asteroids (spawnAsteroid s) = asteroids s @ [a]
           \<and> 0.8 \<le> u \<and> u < 1.2
           \<and> a_vx a = jmul (jdiv dx (jsqrt (jadd (jmul dx dx) (jmul dy dy))))
                         (Fin (fl (fl (1.5 * difficultyMultiplier (gameTime s)) * u)))
           \<and> a_vy a = jmul (jdiv dy (jsqrt (jadd (jmul dx dx) (jmul dy dy))))
                         (Fin (fl (fl (1.5 * difficultyMultiplier (gameTime s)) * u)))
           \<and> (canvasWidth s = of_int m \<and> canvasHeight s = of_int n
                  \<and> 101 \<le> m \<and> m \<le> 2 ^ 52 \<and> 101 \<le> n \<and> n \<le> 2 ^ 52 \<longrightarrow>
                (\<exists>p q. dx = Fin p \<and> dy = Fin q \<and> (1 / 2 \<le> \<bar>p\<bar> \<or> 1 / 2 \<le> \<bar>q\<bar>)))"
    using sp ub v geo by (intro conjI impI) simp_all
  then show ?thesis by (intro exI)
qed

lemma spawn_velocity_number:
  assumes "1 / 2 \<le> \<bar>p\<bar> \<or> 1 / 2 \<le> \<bar>q\<bar>"
  shows "1 / 2 \<le> fl (sqrt (fl (fl (p * p) + fl (q * q))))"
    "jmul (jdiv (Fin p) (jsqrt (jadd (jmul (Fin p) (Fin p)) (jmul (Fin q) (Fin q))))) (Fin v)
       = Fin (fl (fl (p / fl (sqrt (fl (fl (p * p) + fl (q * q))))) * v))"
    "jmul (jdiv (Fin q) (jsqrt (jadd (jmul (Fin p) (Fin p)) (jmul (Fin q) (Fin q))))) (Fin v)
       = Fin (fl (fl (q / fl (sqrt (fl (fl (p * p) + fl (q * q))))) * v))"
proof -
  show d: "1 / 2 \<le> fl (sqrt (fl (fl (p * p) + fl (q * q))))"
    using assms by (rule spawn_distance_pos)
  have pa: "0 \<le> fl (p * p)" by (rule fl_nonneg) simp
  have pb: "0 \<le> fl (q * q)" by (rule fl_nonneg) simp
  from pa pb have "0 \<le> fl (p * p) + fl (q * q)" by simp
  then have "0 \<le> fl (fl (p * p) + fl (q * q))" by (rule fl_nonneg)
  then have s: "jsqrt (jadd (jmul (Fin p) (Fin p)) (jmul (Fin q) (Fin q)))
      = Fin (fl (sqrt (fl (fl (p * p) + fl (q * q)))))"
    by (simp add: not_less[symmetric])
  from d have nz: "fl (sqrt (fl (fl (p * p) + fl (q * q)))) \<noteq> 0" by simp
  show "jmul (jdiv (Fin p) (jsqrt (jadd (jmul (Fin p) (Fin p)) (jmul (Fin q) (Fin q))))) (Fin v)
       = Fin (fl (fl (p / fl (sqrt (fl (fl (p * p) + fl (q * q))))) * v))"
    unfolding s using nz by simp
  show "jmul (jdiv (Fin q) (jsqrt (jadd (jmul (Fin p) (Fin p)) (jmul (Fin q) (Fin q))))) (Fin v)
       = Fin (fl (fl (q / fl (sqrt (fl (fl (p * p) + fl (q * q))))) * v))"
    unfolding s using nz by simp
qed

lemma asteroidStep_lastSpawnTime: "lastSpawnTime (asteroidStep i s) = lastSpawnTime s"
  by (simp add: asteroidStep_def Let_def createExplosion_def scoreDestroy_def
        loseLife_def gameOver_def split: jsnum.splits)

lemma updateAsteroids_lastSpawnTime: "lastSpawnTime (updateAsteroids s) = lastSpawnTime s"
proof -
  have "lastSpawnTime (updateAsteroidsLoop n s) = lastSpawnTime s" for n
    by (rule updateAsteroidsLoop_invariant[where P = "\<lambda>t. lastSpawnTime t = lastSpawnTime s"])
       (simp_all add: asteroidStep_lastSpawnTime)
  then show ?thesis by (simp add: updateAsteroids_def)
qed

lemma gameLoop_lastSpawnTime:
  assumes "isPlaying s"
  shows "lastSpawnTime (gameLoop ct s) =
     (if fl (ct - lastSpawnTime s) > spawnInterval (fl (gameTime s + fl (ct - lastFrameTime s)))
      then ct else lastSpawnTime s)"
  using assms
  by (simp add: gameLoop_def Let_def render_def updateParticles_def
        updateAsteroids_lastSpawnTime)

lemma asteroidStep_gameTime: "gameTime (asteroidStep i s) = gameTime s"
  by (simp add: asteroidStep_def Let_def createExplosion_def scoreDestroy_def
        loseLife_def gameOver_def split: jsnum.splits)

lemma updateAsteroids_gameTime: "gameTime (updateAsteroids s) = gameTime s"
proof -
  have "gameTime (updateAsteroidsLoop n s) = gameTime s" for n
    by (rule updateAsteroidsLoop_invariant[where P = "\<lambda>t. gameTime t = gameTime s"])
       (simp_all add: asteroidStep_gameTime)
  then show ?thesis by (simp add: updateAsteroids_def)
qed

lemma spawnAsteroid_times:
  "gameTime (spawnAsteroid s) = gameTime s" "lastSpawnTime (spawnAsteroid s) = lastSpawnTime s"
  by (simp_all add: spawnAsteroid_def Let_def split: prod.splits)

lemma gameLoop_gameTime:
  "isPlaying s \<Longrightarrow> gameTime (gameLoop ct s) = fl (gameTime s + fl (ct - lastFrameTime s))"
  by (simp add: gameLoop_def Let_def render_def updateParticles_def
        updateAsteroids_gameTime spawnAsteroid_times)

text \<open>
  C8 (as the code has it): the spawn interval of a frame is
  \<open>max 500 (2000 - t / 100)\<close>, the quotient and the difference rounded to doubles, at the
  game time \<open>t\<close> of that frame (the time after the frame's own increment); it is never
  below 500, at most 2000 for \<open>t \<ge> 0\<close>, and it does not grow with \<open>t\<close>; a frame spawns
  exactly when the time since the last spawn exceeds it. The difficulty multiplier is
  \<open>min 2 (1 + t / 30000)\<close>, rounded likewise, at most 2, at least 1 for \<open>t \<ge> 0\<close>, and it
  does not shrink with \<open>t\<close>. With \<^verbatim>\<open>Math.random()\<close> returning doubles in \<open>[0, 1)\<close>, the
  velocity of a spawned asteroid is \<open>(dx / dist) * speed\<close> and \<open>(dy / dist) * speed\<close>, where
  \<open>dist\<close> is the length of \<open>(dx, dy)\<close> as the code computes it and \<open>speed\<close> is the rounded
  product of the rounded product \<open>1.5 * multiplier\<close> and a \<open>u\<close> in \<open>[0.8, 1.2)\<close>. On a
  canvas whose width and height are integers from 101 to \<open>2 ^ 52\<close>, the spawn point and the
  target differ by at least \<open>1 / 2\<close>, \<open>dist\<close> is at least \<open>1 / 2\<close>, and both components of the
  velocity are numbers. (On a canvas of 100 by 100 the target can be the spawn point, and
  the velocity is then \<^verbatim>\<open>NaN\<close>.)
\<close>

theorem difficulty_ramp:
  "spawnInterval t = max 500 (fl (2000 - fl (t / 100)))
   \<and> 500 \<le> spawnInterval t
   \<and> (0 \<le> t \<longrightarrow> spawnInterval t \<le> 2000)
   \<and> (t \<le> t' \<longrightarrow> spawnInterval t' \<le> spawnInterval t)
   \<and> difficultyMultiplier t = min 2 (fl (1 + fl (t / 30000)))
   \<and> difficultyMultiplier t \<le> 2
   \<and> (0 \<le> t \<longrightarrow> 1 \<le> difficultyMultiplier t)
   \<and> (t \<le> t' \<longrightarrow> difficultyMultiplier t \<le> difficultyMultiplier t')
   \<and> (isPlaying s \<longrightarrow>
        gameTime (gameLoop ct s) = fl (gameTime s + fl (ct - lastFrameTime s))
        \<and> lastSpawnTime (gameLoop ct s) =
            (if fl (ct - lastSpawnTime s) > spawnInterval (gameTime (gameLoop ct s))
             then ct else lastSpawnTime s))
   \<and> (randomOk s \<longrightarrow>
        (\<exists>a u dx dy. asteroids (spawnAsteroid s) = asteroids s @ [a]
           \<and> 0.8 \<le> u \<and> u < 1.2
           \<and> a_vx a = jmul (jdiv dx (jsqrt (jadd (jmul dx dx) (jmul dy dy))))
                         (Fin (fl (fl (1.5 * difficultyMultiplier (gameTime s)) * u)))
           \<and> a_vy a = jmul (jdiv dy (jsqrt (jadd (jmul dx dx) (jmul dy dy))))
                         (Fin (fl (fl (1.5 * difficultyMultiplier (gameTime s)) * u)))))
   \<and> (randomOk s \<and> canvasWidth s = of_int m \<and> canvasHeight s = of_int n
        \<and> 101 \<le> m \<and> m \<le> 2 ^ 52 \<and> 101 \<le> n \<and> n \<le> 2 ^ 52 \<longrightarrow>
        (\<exists>a u p q d. asteroids (spawnAsteroid s) = asteroids s @ [a]
           \<and> 0.8 \<le> u \<and> u < 1.2
           \<and> (1 / 2 \<le> \<bar>p\<bar> \<or> 1 / 2 \<le> \<bar>q\<bar>)
           \<and> d = fl (sqrt (fl (fl (p * p) + fl (q * q)))) \<and> 1 / 2 \<le> d
           \<and> a_vx a = Fin (fl (fl (p / d)
                               * fl (fl (1.5 * difficultyMultiplier (gameTime s)) * u)))
           \<and> a_vy a = Fin (fl (fl (q / d)
                               * fl (fl (1.5 * difficultyMultiplier (gameTime s)) * u)))))"
proof -
  have i1: "spawnInterval t = max 500 (fl (2000 - fl (t / 100)))"
    by (rule spawnInterval_bounds)
  have i2: "500 \<le> spawnInterval t"
    by (rule spawnInterval_bounds)
  have i3: "0 \<le> t \<longrightarrow> spawnInterval t \<le> 2000"
    using spawnInterval_bounds(3)[of t] by (rule impI)
  have i4: "t \<le> t' \<longrightarrow> spawnInterval t' \<le> spawnInterval t"
    using spawnInterval_bounds(4)[of t t'] by (rule impI)
  have m1: "difficultyMultiplier t = min 2 (fl (1 + fl (t / 30000)))"
    by (rule difficultyMultiplier_bounds)
  have m2: "difficultyMultiplier t \<le> 2"
    by (rule difficultyMultiplier_bounds)
  have m3: "0 \<le> t \<longrightarrow> 1 \<le> difficultyMultiplier t"
    using difficultyMultiplier_bounds(3)[of t] by (rule impI)
  have m4: "t \<le> t' \<longrightarrow> difficultyMultiplier t \<le> difficultyMultiplier t'"
    using difficultyMultiplier_bounds(4)[of t t'] by (rule impI)
  have frame: "isPlaying s \<longrightarrow>
        gameTime (gameLoop ct s) = fl (gameTime s + fl (ct - lastFrameTime s))
        \<and> lastSpawnTime (gameLoop ct s) =
            (if fl (ct - lastSpawnTime s) > spawnInterval (gameTime (gameLoop ct s))
             then ct else lastSpawnTime s)"
    by (simp add: gameLoop_gameTime gameLoop_lastSpawnTime)
  have speed1: "randomOk s \<longrightarrow>
        (\<exists>a u dx dy. asteroids (spawnAsteroid s) = asteroids s @ [a]
           \<and> 0.8 \<le> u \<and> u < 1.2
           \<and> a_vx a = jmul (jdiv dx (jsqrt (jadd (jmul dx dx) (jmul dy dy))))
                         (Fin (fl (fl (1.5 * difficultyMultiplier (gameTime s)) * u)))
           \<and> a_vy a = jmul (jdiv dy (jsqrt (jadd (jmul dx dx) (jmul dy dy))))
                         (Fin (fl (fl (1.5 * difficultyMultiplier (gameTime s)) * u))))"
  proof
    assume "randomOk s"
    from spawnAsteroid_velocity[OF this, of m n] obtain a u dx dy where
      "asteroids (spawnAsteroid s) = asteroids s @ [a]" "0.8 \<le> u" "u < 1.2"
      "a_vx a = jmul (jdiv dx (jsqrt (jadd (jmul dx dx) (jmul dy dy))))
                         (Fin (fl (fl (1.5 * difficultyMultiplier (gameTime s)) * u)))"
      "a_vy a = jmul (jdiv dy (jsqrt (jadd (jmul dx dx) (jmul dy dy))))
                         (Fin (fl (fl (1.5 * difficultyMultiplier (gameTime s)) * u)))"
      by (elim exE conjE)
    then have "asteroids (spawnAsteroid s) = asteroids s @ [a]
           \<and> 0.8 \<le> u \<and> u < 1.2
           \<and> a_vx a = jmul (jdiv dx (jsqrt (jadd (jmul dx dx) (jmul dy dy))))
                         (Fin (fl (fl (1.5 * difficultyMultiplier (gameTime s)) * u)))
           \<and> a_vy a = jmul (jdiv dy (jsqrt (jadd (jmul dx dx) (jmul dy dy))))
                         (Fin (fl (fl (1.5 * difficultyMultiplier (gameTime s)) * u)))"
      by (intro conjI)
    then show "\<exists>a u dx dy. asteroids (spawnAsteroid s) = asteroids s @ [a]
           \<and> 0.8 \<le> u \<and> u < 1.2
           \<and> a_vx a = jmul (jdiv dx (jsqrt (jadd (jmul dx dx) (jmul dy dy))))
                         (Fin (fl (fl (1.5 * difficultyMultiplier (gameTime s)) * u)))
           \<and> a_vy a = jmul (jdiv dy (jsqrt (jadd (jmul dx dx) (jmul dy dy))))
                         (Fin (fl (fl (1.5 * difficultyMultiplier (gameTime s)) * u)))"
      by (intro exI)
  qed
  have speed2: "randomOk s \<and> canvasWidth s = of_int m \<and> canvasHeight s = of_int n
        \<and> 101 \<le> m \<and> m \<le> 2 ^ 52 \<and> 101 \<le> n \<and> n \<le> 2 ^ 52 \<longrightarrow>
        (\<exists>a u p q d. asteroids (spawnAsteroid s) = asteroids s @ [a]
           \<and> 0.8 \<le> u \<and> u < 1.2
           \<and> (1 / 2 \<le> \<bar>p\<bar> \<or> 1 / 2 \<le> \<bar>q\<bar>)
           \<and> d = fl (sqrt (fl (fl (p * p) + fl (q * q)))) \<and> 1 / 2 \<le> d
           \<and> a_vx a = Fin (fl (fl (p / d)
                               * fl (fl (1.5 * difficultyMultiplier (gameTime s)) * u)))
           \<and> a_vy a = Fin (fl (fl (q / d)
                               * fl (fl (1.5 * difficultyMultiplier (gameTime s)) * u))))"
  proof
    assume h: "randomOk s \<and> canvasWidth s = of_int m \<and> canvasHeight s = of_int n
        \<and> 101 \<le> m \<and> m \<le> 2 ^ 52 \<and> 101 \<le> n \<and> n \<le> 2 ^ 52"
    then have ok: "randomOk s" and c: "canvasWidth s = of_int m \<and> canvasHeight s = of_int n
        \<and> 101 \<le> m \<and> m \<le> 2 ^ 52 \<and> 101 \<le> n \<and> n \<le> 2 ^ 52"
      by simp_all
    from spawnAsteroid_velocity[OF ok, of m n] obtain a u dx dy where
      a: "asteroids (spawnAsteroid s) = asteroids s @ [a]" and
      u: "0.8 \<le> u" "u < 1.2" and
      vx: "a_vx a = jmul (jdiv dx (jsqrt (jadd (jmul dx dx) (jmul dy dy))))
                         (Fin (fl (fl (1.5 * difficultyMultiplier (gameTime s)) * u)))" and
      vy: "a_vy a = jmul (jdiv dy (jsqrt (jadd (jmul dx dx) (jmul dy dy))))
                         (Fin (fl (fl (1.5 * difficultyMultiplier (gameTime s)) * u)))" and
      geo: "canvasWidth s = of_int m \<and> canvasHeight s = of_int n
                  \<and> 101 \<le> m \<and> m \<le> 2 ^ 52 \<and> 101 \<le> n \<and> n \<le> 2 ^ 52 \<longrightarrow>
                (\<exists>p q. dx = Fin p \<and> dy = Fin q \<and> (1 / 2 \<le> \<bar>p\<bar> \<or> 1 / 2 \<le> \<bar>q\<bar>))"
      by (elim exE conjE)
    from geo c have "\<exists>p q. dx = Fin p \<and> dy = Fin q \<and> (1 / 2 \<le> \<bar>p\<bar> \<or> 1 / 2 \<le> \<bar>q\<bar>)"
      by (rule mp)
    then obtain p q where dx: "dx = Fin p" and dy: "dy = Fin q"
      and pq: "1 / 2 \<le> \<bar>p\<bar> \<or> 1 / 2 \<le> \<bar>q\<bar>"
      by (elim exE conjE)
    note v = spawn_velocity_number[OF pq]
    define d where "d = fl (sqrt (fl (fl (p * p) + fl (q * q))))"
    have "asteroids (spawnAsteroid s) = asteroids s @ [a]
           \<and> 0.8 \<le> u \<and> u < 1.2
           \<and> (1 / 2 \<le> \<bar>p\<bar> \<or> 1 / 2 \<le> \<bar>q\<bar>)
           \<and> d = fl (sqrt (fl (fl (p * p) + fl (q * q)))) \<and> 1 / 2 \<le> d
           \<and> a_vx a = Fin (fl (fl (p / d)
                               * fl (fl (1.5 * difficultyMultiplier (gameTime s)) * u)))
           \<and> a_vy a = Fin (fl (fl (q / d)
                               * fl (fl (1.5 * difficultyMultiplier (gameTime s)) * u)))"
      unfolding vx vy dx dy v(2,3) d_def using a u pq v(1) by (intro conjI) (rule refl | assumption)+
    then show "\<exists>a u p q d. asteroids (spawnAsteroid s) = asteroids s @ [a]
           \<and> 0.8 \<le> u \<and> u < 1.2
           \<and> (1 / 2 \<le> \<bar>p\<bar> \<or> 1 / 2 \<le> \<bar>q\<bar>)
           \<and> d = fl (sqrt (fl (fl (p * p) + fl (q * q)))) \<and> 1 / 2 \<le> d
           \<and> a_vx a = Fin (fl (fl (p / d)
                               * fl (fl (1.5 * difficultyMultiplier (gameTime s)) * u)))
           \<and> a_vy a = Fin (fl (fl (q / d)
                               * fl (fl (1.5 * difficultyMultiplier (gameTime s)) * u)))"
      by (intro exI)
  qed
  show ?thesis
    using i1 i2 i3 i4 m1 m2 m3 m4 frame speed1 speed2 by (intro conjI)
qed

theorem difficulty_ramp_witness:
  "spawnInterval 60000 = 1400 \<and> spawnInterval 200000 = 500
   \<and> difficultyMultiplier 15000 = 1.5 \<and> difficultyMultiplier 60000 = 2
   \<and> spawnInterval 200000 \<le> spawnInterval 60000
   \<and> difficultyMultiplier 15000 \<le> difficultyMultiplier 60000
   \<and> gameTime (gameLoop 3000 exampleStartedState) = 3000
   \<and> lastSpawnTime (gameLoop 3000 exampleStartedState) = 3000
   \<and> (\<exists>a u p q d. asteroids (spawnAsteroid exampleStartedState)
            = asteroids exampleStartedState @ [a]
          \<and> 0.8 \<le> u \<and> u < 1.2
          \<and> d = fl (sqrt (fl (fl (p * p) + fl (q * q)))) \<and> 1 / 2 \<le> d
          \<and> a_vx a = Fin (fl (fl (p / d) * fl (fl (1.5 * 1) * u)))
          \<and> a_vy a = Fin (fl (fl (q / d) * fl (fl (1.5 * 1) * u))))"
proof -
  have p: "isPlaying exampleStartedState" "randomOk exampleStartedState"
    "lastFrameTime exampleStartedState = 0"
    "lastSpawnTime exampleStartedState = 0" "gameTime exampleStartedState = 0"
    by (simp_all add: exampleStartedState_def exampleState_def initialState_def randomOk_def
          fl_zero)
  have c: "randomOk exampleStartedState
      \<and> canvasWidth exampleStartedState = of_int 800
      \<and> canvasHeight exampleStartedState = of_int 600
      \<and> (101::int) \<le> 800 \<and> (800::int) \<le> 2 ^ 52 \<and> (101::int) \<le> 600 \<and> (600::int) \<le> 2 ^ 52"
    by (simp add: p) (simp add: exampleStartedState_def exampleState_def initialState_def)
  have le: "(60000::real) \<le> 200000" "(15000::real) \<le> 60000" by simp_all
  have h: "fl (3 / 2) = 3 / 2" using fl_exact[of 3 "- 1"] by simp
  note a = difficulty_ramp[of 60000 200000 exampleStartedState 3000 800 600]
  note b = difficulty_ramp[of 200000 200000 exampleStartedState 3000 800 600]
  note d = difficulty_ramp[of 15000 60000 exampleStartedState 3000 800 600]
  note e = difficulty_ramp[of 0 0 exampleStartedState 3000 800 600]
  from a have a1: "spawnInterval 60000 = max 500 (fl (2000 - fl (60000 / 100)))"
    by (elim conjE)
  from b have b1: "spawnInterval 200000 = max 500 (fl (2000 - fl (200000 / 100)))"
    by (elim conjE)
  from d have d1: "difficultyMultiplier 15000 = min 2 (fl (1 + fl (15000 / 30000)))"
    by (elim conjE)
  from a have a2: "difficultyMultiplier 60000 = min 2 (fl (1 + fl (60000 / 30000)))"
    by (elim conjE)
  from e have e1: "difficultyMultiplier 0 = min 2 (fl (1 + fl (0 / 30000)))"
    by (elim conjE)
  from a have a3: "(60000::real) \<le> 200000 \<longrightarrow> spawnInterval 200000 \<le> spawnInterval 60000"
    by (elim conjE)
  from d have d2: "(15000::real) \<le> 60000 \<longrightarrow> difficultyMultiplier 15000 \<le> difficultyMultiplier 60000"
    by (elim conjE)
  from a have a4: "isPlaying exampleStartedState \<longrightarrow>
        gameTime (gameLoop 3000 exampleStartedState)
          = fl (gameTime exampleStartedState + fl (3000 - lastFrameTime exampleStartedState))
        \<and> lastSpawnTime (gameLoop 3000 exampleStartedState) =
            (if fl (3000 - lastSpawnTime exampleStartedState)
                  > spawnInterval (gameTime (gameLoop 3000 exampleStartedState))
             then 3000 else lastSpawnTime exampleStartedState)"
    by (elim conjE)
  from a have a5: "randomOk exampleStartedState
        \<and> canvasWidth exampleStartedState = of_int 800
        \<and> canvasHeight exampleStartedState = of_int 600
        \<and> (101::int) \<le> 800 \<and> (800::int) \<le> 2 ^ 52 \<and> (101::int) \<le> 600 \<and> (600::int) \<le> 2 ^ 52 \<longrightarrow>
        (\<exists>a u p q d. asteroids (spawnAsteroid exampleStartedState)
              = asteroids exampleStartedState @ [a]
           \<and> 0.8 \<le> u \<and> u < 1.2
           \<and> (1 / 2 \<le> \<bar>p\<bar> \<or> 1 / 2 \<le> \<bar>q\<bar>)
           \<and> d = fl (sqrt (fl (fl (p * p) + fl (q * q)))) \<and> 1 / 2 \<le> d
           \<and> a_vx a = Fin (fl (fl (p / d)
                 * fl (fl (1.5 * difficultyMultiplier (gameTime exampleStartedState)) * u)))
           \<and> a_vy a = Fin (fl (fl (q / d)
                 * fl (fl (1.5 * difficultyMultiplier (gameTime exampleStartedState)) * u))))"
    by (elim conjE)
  have v1: "spawnInterval 60000 = 1400" unfolding a1 by (simp add: fl_numeral)
  have v2: "spawnInterval 200000 = 500" unfolding b1 by (simp add: fl_numeral fl_zero)
  have v3: "difficultyMultiplier 15000 = 1.5" unfolding d1 by (simp add: fl_half h)
  have v4: "difficultyMultiplier 60000 = 2" unfolding a2 by (simp add: fl_numeral)
  have o1: "spawnInterval 200000 \<le> spawnInterval 60000" using a3 le(1) by (rule mp)
  have o2: "difficultyMultiplier 15000 \<le> difficultyMultiplier 60000" using d2 le(2) by (rule mp)
  from a4 p(1) have "gameTime (gameLoop 3000 exampleStartedState)
          = fl (gameTime exampleStartedState + fl (3000 - lastFrameTime exampleStartedState))
        \<and> lastSpawnTime (gameLoop 3000 exampleStartedState) =
            (if fl (3000 - lastSpawnTime exampleStartedState)
                  > spawnInterval (gameTime (gameLoop 3000 exampleStartedState))
             then 3000 else lastSpawnTime exampleStartedState)"
    by (rule mp)
  then have g: "gameTime (gameLoop 3000 exampleStartedState) = 3000
      \<and> lastSpawnTime (gameLoop 3000 exampleStartedState) = 3000"
    by (simp add: p spawnInterval_def CONFIG_def fl_numeral)
  have one: "difficultyMultiplier (gameTime exampleStartedState) = 1"
    unfolding p(5) e1 by (simp add: fl_zero fl_one)
  from a5 c
  have "\<exists>a u p q d. asteroids (spawnAsteroid exampleStartedState)
              = asteroids exampleStartedState @ [a]
           \<and> 0.8 \<le> u \<and> u < 1.2
           \<and> (1 / 2 \<le> \<bar>p\<bar> \<or> 1 / 2 \<le> \<bar>q\<bar>)
           \<and> d = fl (sqrt (fl (fl (p * p) + fl (q * q)))) \<and> 1 / 2 \<le> d
           \<and> a_vx a = Fin (fl (fl (p / d)
                 * fl (fl (1.5 * difficultyMultiplier (gameTime exampleStartedState)) * u)))
           \<and> a_vy a = Fin (fl (fl (q / d)
                 * fl (fl (1.5 * difficultyMultiplier (gameTime exampleStartedState)) * u)))"
    by (rule mp)
  then obtain a u p q d where
    "asteroids (spawnAsteroid exampleStartedState) = asteroids exampleStartedState @ [a]"
    "0.8 \<le> u" "u < 1.2"
    "d = fl (sqrt (fl (fl (p * p) + fl (q * q))))" "1 / 2 \<le> d"
    "a_vx a = Fin (fl (fl (p / d) * fl (fl (1.5 * 1) * u)))"
    "a_vy a = Fin (fl (fl (q / d) * fl (fl (1.5 * 1) * u)))"
    unfolding one by (elim exE conjE)
  then have "asteroids (spawnAsteroid exampleStartedState)
            = asteroids exampleStartedState @ [a]
          \<and> 0.8 \<le> u \<and> u < 1.2
          \<and> d = fl (sqrt (fl (fl (p * p) + fl (q * q)))) \<and> 1 / 2 \<le> d
          \<and> a_vx a = Fin (fl (fl (p / d) * fl (fl (1.5 * 1) * u)))
          \<and> a_vy a = Fin (fl (fl (q / d) * fl (fl (1.5 * 1) * u)))"
    by (intro conjI)
  then have s: "\<exists>a u p q d. asteroids (spawnAsteroid exampleStartedState)
            = asteroids exampleStartedState @ [a]
          \<and> 0.8 \<le> u \<and> u < 1.2
          \<and> d = fl (sqrt (fl (fl (p * p) + fl (q * q)))) \<and> 1 / 2 \<le> d
          \<and> a_vx a = Fin (fl (fl (p / d) * fl (fl (1.5 * 1) * u)))
          \<and> a_vy a = Fin (fl (fl (q / d) * fl (fl (1.5 * 1) * u)))"
    by (intro exI)
  from g have g1: "gameTime (gameLoop 3000 exampleStartedState) = 3000"
    and g2: "lastSpawnTime (gameLoop 3000 exampleStartedState) = 3000" by simp_all
  show ?thesis
    using v1 v2 v3 v4 o1 o2 g1 g2 s by (intro conjI)
qed

text \<open>The claim C8 fails where the spawn point is the target: on a canvas of 100 by 100,
  with \<^verbatim>\<open>Math.random()\<close> returning 0, 0.5, 0.5 and 0, the asteroid is spawned at
  \<open>(50, -50)\<close>, which is its target, and both components of its velocity are \<^verbatim>\<open>NaN\<close>: it
  has no speed.\<close>

theorem spawn_velocity_counterexample:
  "randomOk exampleSmallCanvasState
   \<and> canvasWidth exampleSmallCanvasState = 100 \<and> canvasHeight exampleSmallCanvasState = 100
   \<and> a_x (last (asteroids (spawnAsteroid exampleSmallCanvasState))) = Fin 50
   \<and> a_y (last (asteroids (spawnAsteroid exampleSmallCanvasState))) = Fin (- 50)
   \<and> a_vx (last (asteroids (spawnAsteroid exampleSmallCanvasState))) = NaN
   \<and> a_vy (last (asteroids (spawnAsteroid exampleSmallCanvasState))) = NaN"
proof -
  have r: "randomOk exampleSmallCanvasState"
    by (simp add: randomOk_def exampleSmallCanvasState_def initialState_def fl_zero fl_half)
  have c: "canvasWidth exampleSmallCanvasState = 100 \<and> canvasHeight exampleSmallCanvasState = 100"
    by (simp add: exampleSmallCanvasState_def initialState_def)
  have u: "random exampleSmallCanvasState 0 = 0" "random exampleSmallCanvasState (Suc 0) = 1 / 2"
    "random exampleSmallCanvasState 2 = 1 / 2" "random exampleSmallCanvasState 3 = 0"
    by (simp_all add: random_def exampleSmallCanvasState_def initialState_def)
  have f: "fl (- (1 / 2)) = - (1 / 2)" by (simp add: fl_minus fl_half)
  have "a_x (last (asteroids (spawnAsteroid exampleSmallCanvasState))) = Fin 50
      \<and> a_y (last (asteroids (spawnAsteroid exampleSmallCanvasState))) = Fin (- 50)
      \<and> a_vx (last (asteroids (spawnAsteroid exampleSmallCanvasState))) = NaN
      \<and> a_vy (last (asteroids (spawnAsteroid exampleSmallCanvasState))) = NaN"
    by (simp add: spawnAsteroid_def Let_def u c f fl_zero fl_half fl_numeral fl_neg_numeral
          split: prod.splits)
  with r c show ?thesis by blast
qed


section \<open>The cursor\<close>



end
